theory Spec2Isabelle
  imports Main
begin

section \<open>Python values used by \<^verbatim>\<open>Postman_ST_v1.py\<close>\<close>

text \<open>
  A Python \<^verbatim>\<open>str\<close> is a sequence of Unicode code points, so it is modelled as a list
  of code points; \<open>lit\<close> turns an ASCII literal into one. File contents written in
  binary mode are lists of bytes.
\<close>

type_synonym pystr = "nat list"
type_synonym bytes = "nat list"

definition lit :: "string \<Rightarrow> pystr" where
  "lit s = map of_char s"

text \<open>
  \<^verbatim>\<open>str.strip()\<close> without an argument removes the leading and trailing characters
  for which \<^verbatim>\<open>str.isspace\<close> holds (CPython's whitespace table).
\<close>

definition py_isspace :: "nat \<Rightarrow> bool" where
  "py_isspace c =
     ((0x09 \<le> c \<and> c \<le> 0x0D) \<or> (0x1C \<le> c \<and> c \<le> 0x20) \<or> c = 0x85 \<or> c = 0xA0
      \<or> c = 0x1680 \<or> (0x2000 \<le> c \<and> c \<le> 0x200A) \<or> c = 0x2028 \<or> c = 0x2029
      \<or> c = 0x202F \<or> c = 0x205F \<or> c = 0x3000)"

definition strip :: "pystr \<Rightarrow> pystr" where
  "strip s = rev (dropWhile py_isspace (rev (dropWhile py_isspace s)))"

text \<open>\<^verbatim>\<open>str(n)\<close> for a Python \<^verbatim>\<open>int\<close>: decimal digits, with a minus sign when negative.\<close>

fun str_nat :: "nat \<Rightarrow> pystr" where
  "str_nat n = (if n < 10 then [48 + n] else str_nat (n div 10) @ [48 + n mod 10])"

declare str_nat.simps [simp del]

definition str_int :: "int \<Rightarrow> pystr" where
  "str_int i = (if i < 0 then 45 # str_nat (nat (- i)) else str_nat (nat i))"

text \<open>\<^verbatim>\<open>sep.join(xs)\<close>, and \<^verbatim>\<open>str(xs)\<close> for a list of ints: \<^verbatim>\<open>[10, 10, 50, 60]\<close>.\<close>

fun join :: "pystr \<Rightarrow> pystr list \<Rightarrow> pystr" where
  "join sep [] = []"
| "join sep [x] = x"
| "join sep (x # y # ys) = x @ sep @ join sep (y # ys)"

definition str_int_list :: "int list \<Rightarrow> pystr" where
  "str_int_list xs = lit ''['' @ join (lit '', '') (map str_int xs) @ lit '']''"

text \<open>
  The exceptions the program can meet, all subclasses of \<^verbatim>\<open>Exception\<close>, and \<^verbatim>\<open>str(e)\<close>
  (a \<^verbatim>\<open>KeyError\<close> prints the \<^verbatim>\<open>repr\<close> of its key).
\<close>

datatype exn =
    KeyError pystr
  | ValueError pystr
  | AttributeError pystr
  | OSError pystr
  | UnicodeEncodeError pystr
  | RequestException pystr
  | JSONDecodeError pystr
  | Cv2Error pystr

fun str_exn :: "exn \<Rightarrow> pystr" where
  "str_exn (KeyError k) = [39] @ k @ [39]"
| "str_exn (ValueError m) = m"
| "str_exn (AttributeError m) = m"
| "str_exn (OSError m) = m"
| "str_exn (RequestException m) = m"
| "str_exn (JSONDecodeError m) = m"
| "str_exn (UnicodeEncodeError m) = m"
| "str_exn (Cv2Error m) = m"

section \<open>Data model\<close>

text \<open>
  A detection is a JSON object of the API response. The recorder and the annotator read
  its keys with \<^verbatim>\<open>detection["..."]\<close>, which raises \<^verbatim>\<open>KeyError\<close> on an absent key, so a
  field is \<open>None\<close> when the key is absent. The confidence is a Python float; floats stay
  opaque (the type variable \<open>'f\<close>) and what Python and OpenCV compute from them is a
  parameter of the model (\<open>libs\<close> below).
\<close>

record 'f detection =
  class_name :: "pystr option"
  bbox :: "int list option"
  confidence :: "'f option"

text \<open>
  The JSON body of a successful response, as the code reads it with \<^verbatim>\<open>.get\<close> and a
  default: \<open>get_text_detections\<close> is \<open>None\<close> when the key \<^verbatim>\<open>text_detections\<close> is absent and
  \<open>Some None\<close> when that object has no \<^verbatim>\<open>all_text\<close>; \<open>get_antenna_detections\<close> is \<open>None\<close>
  when the key \<^verbatim>\<open>antenna_detections\<close> is absent.
\<close>

record 'f api_result =
  get_text_detections :: "pystr option option"
  get_antenna_detections :: "'f detection list option"

text \<open>
  What \<^verbatim>\<open>requests.post\<close> does: it raises, or it returns a response with a status code and
  a body. The body is \<open>Inl e\<close> when decoding it and reading the two fields (lines 94-98)
  raises \<open>e\<close>: it is not JSON, or not an object of the documented shape. Otherwise it is
  the decoded result.
\<close>

datatype 'f api_outcome =
    PostRaised exn
  | Response int "exn + 'f api_result"

text \<open>An image as \<^verbatim>\<open>cv2.imread\<close> decodes it, and the drawing calls made on it.\<close>

record image =
  height :: int
  width :: int
  pixels :: bytes

type_synonym point = "int \<times> int"
type_synonym color = "nat \<times> nat \<times> nat"

datatype 'f draw_op =
    Rectangle point point color int
  | PutText pystr point 'f color int

type_synonym 'f annotated = "image \<times> 'f draw_op list"

text \<open>
  The parts of Python and OpenCV the program calls on floats and image files:
  \<^item> \<open>format_2f x\<close> is \<^verbatim>\<open>f"{x:.2f}"\<close>, \<open>format_pct x\<close> is \<^verbatim>\<open>f"{x*100:.1f}"\<close>;
  \<^item> \<open>font_scale_of width\<close> is \<^verbatim>\<open>max(0.6, width / 1200)\<close>;
  \<^item> \<open>get_text_size label font_scale thickness\<close> is the size \<^verbatim>\<open>cv2.getTextSize\<close> returns
    for \<^verbatim>\<open>FONT_HERSHEY_SIMPLEX\<close>;
  \<^item> \<open>imdecode\<close> is what \<^verbatim>\<open>cv2.imread\<close> makes of a file's bytes (\<open>None\<close> when it cannot
    decode them);
  \<^item> \<open>rectangle_error\<close> is the \<^verbatim>\<open>cv2.error\<close> that \<^verbatim>\<open>cv2.rectangle\<close> raises for a corner
    whose coordinate is not a C \<^verbatim>\<open>int\<close>.
\<close>

record 'f libs =
  format_2f :: "'f \<Rightarrow> pystr"
  format_pct :: "'f \<Rightarrow> pystr"
  font_scale_of :: "int \<Rightarrow> 'f"
  get_text_size :: "pystr \<Rightarrow> 'f \<Rightarrow> int \<Rightarrow> int \<times> int"
  imdecode :: "bytes \<Rightarrow> image option"
  rectangle_error :: exn

text \<open>Every call into Streamlit that shows something (and \<^verbatim>\<open>time.sleep\<close>) is recorded in
  order.\<close>

datatype 'f event =
    Title pystr
  | SidebarHeader pystr
  | SidebarWrite pystr
  | SidebarSuccess pystr
  | SidebarError pystr
  | Subheader pystr
  | Write pystr
  | Dataframe "'f detection list"
  | ImageFile pystr pystr
  | ImageArray "'f annotated" pystr
  | DownloadButton pystr pystr
  | Sleep nat

text \<open>
  The state the program works on: \<^verbatim>\<open>API_results/results.csv\<close> (\<open>None\<close> while the file does
  not exist), the uploaded originals saved in \<^verbatim>\<open>API_results\<close>, the annotated images in
  \<^verbatim>\<open>API_annotated\<close>, both by file name, and the recorded calls. The uploaders accept
  only \<^verbatim>\<open>jpg\<close>, \<^verbatim>\<open>jpeg\<close> and \<^verbatim>\<open>png\<close> files, so no upload is named \<^verbatim>\<open>results.csv\<close> and the
  CSV file is a field of its own.
\<close>

record 'f world =
  csv_file :: "pystr option"
  results_folder :: "pystr \<rightharpoonup> bytes"
  annotated_folder :: "pystr \<rightharpoonup> 'f annotated"
  events :: "'f event list"

text \<open>
  What can go wrong with a text file the program writes. \<open>OpenRaises e\<close>: \<^verbatim>\<open>open\<close> raises
  \<open>e\<close>. \<open>WriteRaises k e\<close>: the file opens, and the \<open>k\<close>-th \<^verbatim>\<open>f.write\<close> of the block
  (counted from 0) raises \<open>e\<close>: a \<^verbatim>\<open>UnicodeEncodeError\<close> when the row holds a character the
  file's encoding cannot encode (a lone surrogate, a character outside the code page of
  the locale), an \<^verbatim>\<open>OSError\<close> of the device. What was written before stays in the file.
\<close>

datatype csv_failure =
    OpenRaises exn
  | WriteRaises nat exn

text \<open>
  What can go wrong with \<^verbatim>\<open>cv2.imwrite\<close>. \<open>ImwriteRaises e\<close>: it raises \<open>e\<close>.
  \<open>ImwriteFalse e\<close>: it writes no file and returns \<^verbatim>\<open>False\<close>, which the program does not look
  at; \<open>e\<close> is what \<^verbatim>\<open>open(annotated_path, "rb")\<close> raises later when the annotated folder
  has no file of that name.
\<close>

datatype imwrite_failure =
    ImwriteRaises exn
  | ImwriteFalse exn

text \<open>An uploaded file, and what the outside world does while it is processed: the API's
  answer, the exception (if any) that saving the upload raises, and what goes wrong (if
  anything) with the CSV file and with \<^verbatim>\<open>cv2.imwrite\<close>.\<close>

record upload =
  name :: pystr
  buffer :: bytes

record 'f env =
  save_fault :: "exn option"
  api :: "'f api_outcome"
  csv_fault :: "csv_failure option"
  imwrite_fault :: "imwrite_failure option"

text \<open>What the outside world does to the steps of a run that belong to no image: the
  exception (if any) that \<^verbatim>\<open>os.makedirs\<close> (lines 16-17) raises, what goes wrong with
  writing the header (lines 23-25), and the exception (if any) that
  \<^verbatim>\<open>open(CSV_FILE, "rb")\<close> (line 158) raises.\<close>

record run_env =
  makedirs_fault :: "exn option"
  header_fault :: "csv_failure option"
  download_fault :: "exn option"

section \<open>The result recorder\<close>

definition CSV_HEADER :: pystr where
  "CSV_HEADER = lit ''Image Name,Extracted Text,Total Antennas,Class Name,Bounding Box (x1,y1,x2,y2),Confidence Score\<newline>''"

text \<open>The content an \<^verbatim>\<open>open\<close> in append mode starts from: that of the file, or nothing
  when it creates the file.\<close>

definition content :: "pystr option \<Rightarrow> pystr" where
  "content csv = (case csv of None \<Rightarrow> [] | Some c \<Rightarrow> c)"

text \<open>
  \<^verbatim>\<open>f.write(row)\<close> inside a \<^verbatim>\<open>with open(...)\<close> block: \<open>written\<close> are the rows written by
  the block so far. The call raises, writing nothing of the row, or adds the row.
\<close>

definition f_write :: "csv_failure option \<Rightarrow> pystr list \<Rightarrow> pystr \<Rightarrow> exn + pystr list" where
  "f_write fault written row =
     (case fault of
        Some (WriteRaises k e) \<Rightarrow> if k = length written then Inl e else Inr (written @ [row])
      | _ \<Rightarrow> Inr (written @ [row]))"

text \<open>
  Lines 23-25: when the file does not exist it is created and the header written. The
  result is the exception raised (if any) and the state afterwards: a failing \<^verbatim>\<open>open\<close>
  leaves no file, a failing write leaves the file it created, empty.
\<close>

definition ensure_csv :: "csv_failure option \<Rightarrow> 'f world \<Rightarrow> exn option \<times> 'f world" where
  "ensure_csv fault w =
     (case csv_file w of
        Some c \<Rightarrow> (None, w)
      | None \<Rightarrow>
          (case fault of
             Some (OpenRaises e) \<Rightarrow> (Some e, w)
           | _ \<Rightarrow>
               (case f_write fault [] CSV_HEADER of
                  Inl e \<Rightarrow> (Some e, w\<lparr>csv_file := Some []\<rparr>)
                | Inr written \<Rightarrow> (None, w\<lparr>csv_file := Some (concat written)\<rparr>))))"

text \<open>Lines 30-33, 40 and 42: the three format strings.\<close>

definition text_row :: "pystr \<Rightarrow> pystr \<Rightarrow> pystr" where
  "text_row image_name extracted_text =
     (if extracted_text \<noteq> [] then image_name @ lit '','' @ extracted_text @ lit '',,,, \<newline>''
      else image_name @ lit '',No text found,,,, \<newline>'')"

definition detection_row :: "'f libs \<Rightarrow> pystr \<Rightarrow> nat \<Rightarrow> pystr \<Rightarrow> int list \<Rightarrow> 'f \<Rightarrow> pystr" where
  "detection_row lib image_name n cls bb conf =
     image_name @ lit '',,'' @ str_nat n @ lit '','' @ cls @ lit '','' @ str_int_list bb
       @ lit '','' @ format_2f lib conf @ lit ''\<newline>''"

definition no_detection_row :: "pystr \<Rightarrow> pystr" where
  "no_detection_row image_name = image_name @ lit '',,0,No detection,N/A,N/A\<newline>''"

text \<open>
  Lines 36-40: the loop over the detections; \<open>written\<close> are the rows the block has
  written so far and \<open>n\<close> is \<^verbatim>\<open>len(antenna_detections)\<close>. The result is the exception raised
  (if any) and the rows written: what was written before a \<^verbatim>\<open>KeyError\<close> or a failing
  write stays written.
\<close>

fun write_detections ::
  "'f libs \<Rightarrow> csv_failure option \<Rightarrow> pystr \<Rightarrow> nat \<Rightarrow> 'f detection list \<Rightarrow> pystr list
     \<Rightarrow> exn option \<times> pystr list" where
  "write_detections lib fault image_name n [] written = (None, written)"
| "write_detections lib fault image_name n (d # ds) written =
     (case class_name d of
        None \<Rightarrow> (Some (KeyError (lit ''class_name'')), written)
      | Some cls \<Rightarrow>
          (case bbox d of
             None \<Rightarrow> (Some (KeyError (lit ''bbox'')), written)
           | Some bb \<Rightarrow>
               (case confidence d of
                  None \<Rightarrow> (Some (KeyError (lit ''confidence'')), written)
                | Some conf \<Rightarrow>
                    (case f_write fault written (detection_row lib image_name n cls bb conf) of
                       Inl e \<Rightarrow> (Some e, written)
                     | Inr written' \<Rightarrow>
                         write_detections lib fault image_name n ds written'))))"

text \<open>Lines 30-42: the body of the \<^verbatim>\<open>with\<close> block, as the exception it raises (if any) and
  the rows it writes, in order.\<close>

definition recorder_writes ::
  "'f libs \<Rightarrow> csv_failure option \<Rightarrow> pystr \<Rightarrow> pystr \<Rightarrow> 'f detection list
     \<Rightarrow> exn option \<times> pystr list" where
  "recorder_writes lib fault image_name extracted_text antenna_detections =
     (case f_write fault [] (text_row image_name extracted_text) of
        Inl e \<Rightarrow> (Some e, [])
      | Inr written \<Rightarrow>
          if antenna_detections \<noteq> [] then
            write_detections lib fault image_name (length antenna_detections)
              antenna_detections written
          else
            (case f_write fault written (no_detection_row image_name) of
               Inl e \<Rightarrow> (Some e, written)
             | Inr written' \<Rightarrow> (None, written')))"

text \<open>
  \<^verbatim>\<open>save_results_to_csv\<close> (lines 27-42). When \<^verbatim>\<open>open(CSV_FILE, "a")\<close> raises, the file is
  as it was. Otherwise the file (created when missing) holds what it held, followed by
  the rows the block wrote. The result is the exception raised (if any) and the file
  afterwards.
\<close>

definition save_results_to_csv ::
  "'f libs \<Rightarrow> csv_failure option \<Rightarrow> pystr \<Rightarrow> pystr \<Rightarrow> 'f detection list \<Rightarrow> pystr option
     \<Rightarrow> exn option \<times> pystr option" where
  "save_results_to_csv lib fault image_name extracted_text antenna_detections csv =
     (case fault of
        Some (OpenRaises e) \<Rightarrow> (Some e, csv)
      | _ \<Rightarrow>
          (case recorder_writes lib fault image_name extracted_text antenna_detections of
             (r, written) \<Rightarrow> (r, Some (content csv @ concat written))))"

section \<open>The annotator\<close>

text \<open>The coordinates OpenCV accepts: those of a C \<^verbatim>\<open>int\<close>.\<close>

definition c_int :: "int \<Rightarrow> bool" where
  "c_int i = (- 2147483648 \<le> i \<and> i \<le> 2147483647)"

text \<open>
  Lines 55-75: the loop over the detections, collecting the drawing calls.
  \<^verbatim>\<open>cv2.rectangle\<close> (line 64) raises for a corner of the box that is not a C \<^verbatim>\<open>int\<close>. The
  box and the origin of the label are computed from the size \<^verbatim>\<open>cv2.getTextSize\<close> returned
  and are taken to be C \<^verbatim>\<open>int\<close>s.
\<close>

fun draw_detections ::
  "'f libs \<Rightarrow> int \<Rightarrow> 'f \<Rightarrow> int \<Rightarrow> 'f detection list \<Rightarrow> 'f draw_op list
     \<Rightarrow> exn + 'f draw_op list" where
  "draw_detections lib box_thickness font_scale text_thickness [] ops = Inr ops"
| "draw_detections lib box_thickness font_scale text_thickness (d # ds) ops =
     (case bbox d of
        None \<Rightarrow> Inl (KeyError (lit ''bbox''))
      | Some bb \<Rightarrow>
          (case class_name d of
             None \<Rightarrow> Inl (KeyError (lit ''class_name''))
           | Some cls \<Rightarrow>
               (case confidence d of
                  None \<Rightarrow> Inl (KeyError (lit ''confidence''))
                | Some conf \<Rightarrow>
                    (case bb of
                       [x1, y1, x2, y2] \<Rightarrow>
                         if \<not> (c_int x1 \<and> c_int y1 \<and> c_int x2 \<and> c_int y2) then
                           Inl (rectangle_error lib)
                         else
                           (let label = cls @ lit '' ('' @ format_pct lib conf @ lit ''%)'';
                              (text_width, text_height) =
                                 get_text_size lib label font_scale text_thickness;
                              text_x = x1;
                              text_y = max (y1 - 10) (text_height + 10)
                          in draw_detections lib box_thickness font_scale text_thickness ds
                               (ops @
                                [Rectangle (x1, y1) (x2, y2) (0, 255, 0) box_thickness,
                                 Rectangle (text_x, text_y - text_height - 5)
                                   (text_x + text_width, text_y + 5) (0, 0, 0) (- 1),
                                 PutText label (text_x, text_y) font_scale (255, 255, 255)
                                   text_thickness]))
                     | _ \<Rightarrow>
                         Inl (ValueError
                               (if length bb < 4 then
                                  lit ''not enough values to unpack (expected 4, got ''
                                    @ str_nat (length bb) @ lit '')''
                                else lit ''too many values to unpack (expected 4)''))))))"

text \<open>
  \<^verbatim>\<open>draw_bounding_boxes\<close> (lines 44-77). \<^verbatim>\<open>cv2.imread\<close> returns \<^verbatim>\<open>None\<close> for a path that
  has no file or whose bytes it cannot decode.
\<close>

definition draw_bounding_boxes ::
  "'f libs \<Rightarrow> (pystr \<rightharpoonup> bytes) \<Rightarrow> pystr \<Rightarrow> 'f detection list \<Rightarrow> exn + 'f annotated option" where
  "draw_bounding_boxes lib folder image_path antenna_detections =
     (case (case folder image_path of None \<Rightarrow> None | Some b \<Rightarrow> imdecode lib b) of
        None \<Rightarrow> Inr None
      | Some img \<Rightarrow>
          (let box_thickness = max 3 (width img div 300);
               font_scale = font_scale_of lib (width img);
               text_thickness = max 2 (width img div 600)
           in case draw_detections lib box_thickness font_scale text_thickness
                     antenna_detections [] of
                Inl e \<Rightarrow> Inl e
              | Inr ops \<Rightarrow> Inr (Some (img, ops))))"

section \<open>Processing one image\<close>

text \<open>Lines 97 and 98: \<^verbatim>\<open>result.get("text_detections", {}).get("all_text", "")\<close> and
  \<^verbatim>\<open>result.get("antenna_detections", [])\<close>.\<close>

definition all_text :: "'f api_result \<Rightarrow> pystr" where
  "all_text result =
     (case get_text_detections result of
        None \<Rightarrow> []
      | Some td \<Rightarrow> (case td of None \<Rightarrow> [] | Some t \<Rightarrow> t))"

definition detections_of :: "'f api_result \<Rightarrow> 'f detection list" where
  "detections_of result = (case get_antenna_detections result of None \<Rightarrow> [] | Some ds \<Rightarrow> ds)"

text \<open>Lines 94-129: the branch taken on status 200, after \<^verbatim>\<open>response.json()\<close> returned.\<close>

definition on_success ::
  "'f libs \<Rightarrow> 'f env \<Rightarrow> upload \<Rightarrow> 'f api_result \<Rightarrow> 'f world \<Rightarrow> exn option \<times> 'f world" where
  "on_success lib env file result w =
     (let extracted_text = strip (all_text result);
          antenna_detections = detections_of result
      in case save_results_to_csv lib (csv_fault env) (name file) extracted_text
                antenna_detections (csv_file w) of
           (Some e, csv) \<Rightarrow> (Some e, w\<lparr>csv_file := csv\<rparr>)
         | (None, csv) \<Rightarrow>
             (let w2 = w\<lparr>csv_file := csv,
                        events := events w @
                          [SidebarSuccess ([0x2705] @ lit '' Processed: '' @ name file),
                           Subheader ([0x1F4DD] @ lit '' Extracted Text''),
                           Write (if extracted_text \<noteq> [] then extracted_text
                                  else lit ''No text found'')]\<rparr>
              in if antenna_detections \<noteq> [] then
                   (let w3 = w2\<lparr>events := events w2 @
                                 [Subheader ([0x1F4E1] @ lit '' Antenna Detections''),
                                  Dataframe antenna_detections]\<rparr>
                    in case draw_bounding_boxes lib (results_folder w3) (name file)
                              antenna_detections of
                         Inl e \<Rightarrow> (Some e, w3)
                       | Inr None \<Rightarrow> (None, w3)
                       | Inr (Some annotated_img) \<Rightarrow>
                           (case imwrite_fault env of
                              Some (ImwriteRaises e) \<Rightarrow> (Some e, w3)
                            | Some (ImwriteFalse e) \<Rightarrow>
                                (let w4 = w3\<lparr>events := events w3 @
                                      [ImageFile (name file) ([0x1F4F7] @ lit '' Original Image''),
                                       ImageArray annotated_img
                                         ([0x1F58D] @ lit '' Annotated Image'')]\<rparr>
                                 in case annotated_folder w4 (name file) of
                                      None \<Rightarrow> (Some e, w4)
                                    | Some earlier \<Rightarrow>
                                        (None,
                                         w4\<lparr>events := events w4 @
                                           [DownloadButton
                                              ([0x1F4E5] @ lit '' Download Annotated Image'')
                                              (lit ''annotated_'' @ name file)]\<rparr>))
                            | None \<Rightarrow>
                                (None,
                                 w3\<lparr>annotated_folder :=
                                       (annotated_folder w3)(name file \<mapsto> annotated_img),
                                    events := events w3 @
                                      [ImageFile (name file) ([0x1F4F7] @ lit '' Original Image''),
                                       ImageArray annotated_img
                                         ([0x1F58D] @ lit '' Annotated Image''),
                                       DownloadButton
                                         ([0x1F4E5] @ lit '' Download Annotated Image'')
                                         (lit ''annotated_'' @ name file)]\<rparr>)))
                 else (None, w2)))"

text \<open>Lines 84-132: the body of the \<^verbatim>\<open>try\<close>. The result is the exception it raises (if
  any) and the state it leaves.\<close>

definition process_image_body ::
  "'f libs \<Rightarrow> 'f env \<Rightarrow> upload \<Rightarrow> 'f world \<Rightarrow> exn option \<times> 'f world" where
  "process_image_body lib env file w =
     (case save_fault env of
        Some e \<Rightarrow> (Some e, w)
      | None \<Rightarrow>
          (let w1 = w\<lparr>results_folder := (results_folder w)(name file \<mapsto> buffer file)\<rparr>
           in case api env of
                PostRaised e \<Rightarrow> (Some e, w1)
              | Response status_code body \<Rightarrow>
                  if status_code = 200 then
                    (case body of
                       Inl e \<Rightarrow> (Some e, w1)
                     | Inr result \<Rightarrow> on_success lib env file result w1)
                  else
                    (None,
                     w1\<lparr>events := events w1 @
                          [SidebarError ([0x274C] @ lit '' API Error: '' @ str_int status_code)]\<rparr>)))"

text \<open>
  \<^verbatim>\<open>process_image\<close> (lines 79-135): the announcement, the \<^verbatim>\<open>try\<close> and its
  \<^verbatim>\<open>except Exception\<close> handler. The first component of the result is the exception that
  reaches the caller, if any.
\<close>

definition process_image ::
  "'f libs \<Rightarrow> 'f env \<Rightarrow> upload \<Rightarrow> 'f world \<Rightarrow> exn option \<times> 'f world" where
  "process_image lib env file w =
     (let w0 = w\<lparr>events := events w @
                   [SidebarWrite ([0x1F504] @ lit '' Processing '' @ name file @ lit ''...'')]\<rparr>
      in case process_image_body lib env file w0 of
           (None, w1) \<Rightarrow> (None, w1)
         | (Some e, w1) \<Rightarrow>
             (None,
              w1\<lparr>events := events w1 @
                   [SidebarError ([0x26A0, 0xFE0F] @ lit '' Error processing image: '' @ str_exn e)]\<rparr>))"

section \<open>One run of the script\<close>

text \<open>Lines 151-154: the batch loop. An exception that leaves \<^verbatim>\<open>process_image\<close> would end
  the loop.\<close>

fun process_batch ::
  "'f libs \<Rightarrow> (upload \<times> 'f env) list \<Rightarrow> 'f world \<Rightarrow> exn option \<times> 'f world" where
  "process_batch lib [] w = (None, w)"
| "process_batch lib ((file, env) # rest) w =
     (case process_image lib env file w of
        (Some e, w1) \<Rightarrow> (Some e, w1)
      | (None, w1) \<Rightarrow> process_batch lib rest (w1\<lparr>events := events w1 @ [Sleep 1]\<rparr>))"

text \<open>Lines 138-142: the title, the invitation and the sidebar header.\<close>

definition page_header :: "'f world \<Rightarrow> 'f world" where
  "page_header w =
     w\<lparr>events := events w @
         [Title ([0x1F4E1] @ lit '' Tower - Antenna: AI Detection''),
          Write (lit ''Upload images for **text extraction & antenna detection**''),
          SidebarHeader ([0x1F4C2] @ lit '' File Upload'')]\<rparr>"

text \<open>
  One run of the script (lines 16-25 and 138-159) with the files the user has put in the
  single-file and the multi-file uploader. Nothing guards the steps outside
  \<^verbatim>\<open>process_image\<close>: an exception of \<^verbatim>\<open>os.makedirs\<close>, of the header step or of
  \<^verbatim>\<open>open(CSV_FILE, "rb")\<close> ends the run.
\<close>

definition script_run ::
  "'f libs \<Rightarrow> run_env \<Rightarrow> (upload \<times> 'f env) option \<Rightarrow> (upload \<times> 'f env) list \<Rightarrow> 'f world
     \<Rightarrow> exn option \<times> 'f world" where
  "script_run lib renv uploaded_file uploaded_files w =
     (case makedirs_fault renv of
        Some e \<Rightarrow> (Some e, w)
      | None \<Rightarrow>
          (case ensure_csv (header_fault renv) w of
             (Some e, w0) \<Rightarrow> (Some e, w0)
           | (None, w0) \<Rightarrow>
               (case (case uploaded_file of
                        None \<Rightarrow> (None, page_header w0)
                      | Some (file, env) \<Rightarrow> process_image lib env file (page_header w0)) of
                  (Some e, w2) \<Rightarrow> (Some e, w2)
                | (None, w2) \<Rightarrow>
                    (case process_batch lib uploaded_files w2 of
                       (Some e, w3) \<Rightarrow> (Some e, w3)
                     | (None, w3) \<Rightarrow>
                         if csv_file w3 \<noteq> None then
                           (case download_fault renv of
                              Some e \<Rightarrow> (Some e, w3)
                            | None \<Rightarrow>
                                (None,
                                 w3\<lparr>events := events w3 @
                                    [DownloadButton ([0x1F4E5] @ lit '' Download CSV Results'')
                                       (lit ''results.csv'')]\<rparr>))
                         else (None, w3)))))"

section \<open>Vocabulary of the properties\<close>

text \<open>A CSV row made of the given cells: the cells joined by commas, then a newline.\<close>

definition csv_line :: "pystr list \<Rightarrow> pystr" where
  "csv_line cells = join (lit '','') cells @ lit ''\<newline>''"

text \<open>The announcement \<^verbatim>\<open>process_image\<close> starts with, and the announcements among the
  recorded calls.\<close>

definition announcement :: "pystr \<Rightarrow> pystr" where
  "announcement image_name = [0x1F504] @ lit '' Processing '' @ image_name @ lit ''...''"

fun announced :: "'f event list \<Rightarrow> pystr list" where
  "announced [] = []"
| "announced (SidebarWrite m # es) = m # announced es"
| "announced (e # es) = announced es"

text \<open>A detection that carries its three keys.\<close>

definition complete :: "'f detection \<Rightarrow> bool" where
  "complete d = (class_name d \<noteq> None \<and> bbox d \<noteq> None \<and> confidence d \<noteq> None)"

text \<open>
  \<^verbatim>\<open>s.split(c)\<close> for a one-character separator, and the number of comma-separated fields
  a reader finds in a written row (the row without its final newline).
\<close>

fun split_on :: "nat \<Rightarrow> pystr \<Rightarrow> pystr list" where
  "split_on c [] = [[]]"
| "split_on c (x # xs) =
     (if x = c then [] # split_on c xs
      else (x # hd (split_on c xs)) # tl (split_on c xs))"

definition nfields :: "pystr \<Rightarrow> nat" where
  "nfields row = length (split_on 44 (butlast row))"

text \<open>Whether a string holds two commas in a row (an empty cell between them).\<close>

fun adjacent_commas :: "pystr \<Rightarrow> bool" where
  "adjacent_commas (a # b # xs) = ((a = 44 \<and> b = 44) \<or> adjacent_commas (b # xs))"
| "adjacent_commas xs = False"

text \<open>
  The rows the recorder writes while one image is processed: none unless the upload is
  saved, the API answers 200 with a body of the documented shape and the CSV file opens;
  then those of the \<^verbatim>\<open>with\<close> block, called with the stripped text and the detections.
\<close>

definition image_writes :: "'f libs \<Rightarrow> upload \<times> 'f env \<Rightarrow> pystr list" where
  "image_writes lib fe =
     (case fe of (file, env) \<Rightarrow>
        (case save_fault env of
           Some e \<Rightarrow> []
         | None \<Rightarrow>
             (case api env of
                PostRaised e \<Rightarrow> []
              | Response status_code body \<Rightarrow>
                  if status_code = 200 then
                    (case body of
                       Inl e \<Rightarrow> []
                     | Inr result \<Rightarrow>
                         (case csv_fault env of
                            Some (OpenRaises e) \<Rightarrow> []
                          | _ \<Rightarrow>
                              snd (recorder_writes lib (csv_fault env) (name file)
                                     (strip (all_text result)) (detections_of result))))
                  else [])))"

text \<open>
  A run, with what the outside world does to it and its uploads; the rows the recorder
  writes in a run (none when \<^verbatim>\<open>os.makedirs\<close> raises, which ends the run at once); and a
  sequence of runs, each starting in the state the run before left.
\<close>

type_synonym 'f run = "run_env \<times> (upload \<times> 'f env) option \<times> (upload \<times> 'f env) list"

definition run_writes :: "'f libs \<Rightarrow> 'f run \<Rightarrow> pystr list" where
  "run_writes lib r =
     (case r of (renv, uploaded_file, uploaded_files) \<Rightarrow>
        (case makedirs_fault renv of
           Some e \<Rightarrow> []
         | None \<Rightarrow>
             (case uploaded_file of None \<Rightarrow> [] | Some fe \<Rightarrow> image_writes lib fe)
               @ concat (map (image_writes lib) uploaded_files)))"

fun script_runs :: "'f libs \<Rightarrow> 'f run list \<Rightarrow> 'f world \<Rightarrow> 'f world" where
  "script_runs lib [] w = w"
| "script_runs lib ((renv, uploaded_file, uploaded_files) # rest) w =
     script_runs lib rest (snd (script_run lib renv uploaded_file uploaded_files w))"

text \<open>
  An instance of the library parameters, to run the model on concrete inputs. A float is
  given in hundredths (\<open>87\<close> stands for \<^verbatim>\<open>0.87\<close>), which Python renders with the digits written
  here; an image file holds its height, its width and then its pixels; a label is ten
  pixels wide per character and twenty high.
\<close>

definition example_libs :: "nat libs" where
  "example_libs =
     \<lparr>format_2f = (\<lambda>p. str_nat (p div 100) @ lit ''.'' @ str_nat (p mod 100 div 10) @ str_nat (p mod 10)),
      format_pct = (\<lambda>p. str_nat p @ lit ''.0''),
      font_scale_of = (\<lambda>w. max 60 (nat (w div 12))),
      get_text_size = (\<lambda>label font_scale thickness. (int (length label) * 10, 20)),
      imdecode = (\<lambda>b. case b of h # w # px \<Rightarrow> Some \<lparr>height = int h, width = int w, pixels = px\<rparr>
                          | _ \<Rightarrow> None),
      rectangle_error = Cv2Error (lit ''Bad argument'')\<rparr>"

text \<open>Concrete inputs: a state with the header in the CSV file and nothing else, an
  upload whose file decodes to a 48 by 64 image, the detection of the specification's
  example, and an environment without faults around a given API outcome.\<close>

definition example_world :: "nat world" where
  "example_world =
     \<lparr>csv_file = Some CSV_HEADER, results_folder = Map.empty, annotated_folder = Map.empty,
      events = []\<rparr>"

definition example_upload :: upload where
  "example_upload = \<lparr>name = lit ''tower1.jpg'', buffer = [48, 64, 7, 7, 7]\<rparr>"

definition example_detection :: "nat detection" where
  "example_detection =
     \<lparr>class_name = Some (lit ''panel''), bbox = Some [10, 10, 50, 60], confidence = Some 87\<rparr>"

definition example_env :: "nat api_outcome \<Rightarrow> nat env" where
  "example_env outcome =
     \<lparr>save_fault = None, api = outcome, csv_fault = None, imwrite_fault = None\<rparr>"

text \<open>The response of the specification's example, an upload whose file does not decode,
  a state in which the CSV file does not exist yet, and a run in which nothing outside
  the images fails.\<close>

definition example_result :: "nat api_result" where
  "example_result =
     \<lparr>get_text_detections = Some (Some (lit ''TWR-001'')),
      get_antenna_detections = Some [example_detection]\<rparr>"

definition broken_upload :: upload where
  "broken_upload = \<lparr>name = lit ''broken.png'', buffer = [0]\<rparr>"

definition fresh_world :: "nat world" where
  "fresh_world =
     \<lparr>csv_file = None, results_folder = Map.empty, annotated_folder = Map.empty, events = []\<rparr>"

definition quiet_run :: run_env where
  "quiet_run = \<lparr>makedirs_fault = None, header_fault = None, download_fault = None\<rparr>"

section \<open>The rows the recorder writes\<close>

lemma text_row_csv_line:
  "text_row image_name extracted_text =
     csv_line [image_name, if extracted_text \<noteq> [] then extracted_text else lit ''No text found'',
               [], [], [], lit '' '']"
  by (simp add: text_row_def csv_line_def lit_def)

lemma detection_row_csv_line:
  "detection_row lib image_name n cls bb conf =
     csv_line [image_name, [], str_nat n, cls, str_int_list bb, format_2f lib conf]"
  by (simp add: detection_row_def csv_line_def lit_def)

lemma no_detection_row_csv_line:
  "no_detection_row image_name =
     csv_line [image_name, [], lit ''0'', lit ''No detection'', lit ''N/A'', lit ''N/A'']"
  by (simp add: no_detection_row_def csv_line_def lit_def)

lemma f_write_no_fault: "f_write None written row = Inr (written @ [row])"
  by (simp add: f_write_def)

lemma write_detections_complete:
  "\<forall>d \<in> set ds. complete d \<Longrightarrow>
   write_detections lib None image_name n ds written =
     (None, written @ map (\<lambda>d. detection_row lib image_name n (the (class_name d))
                                 (the (bbox d)) (the (confidence d))) ds)"
  by (induction ds arbitrary: written) (auto simp: complete_def f_write_no_fault)

text \<open>
  C3. When the detection list is empty, and neither opening the file nor a write raises,
  the recorder writes two rows: the text row, and exactly one more, which holds the
  image name, an empty text cell, the count \<^verbatim>\<open>0\<close>, the class name \<^verbatim>\<open>No detection\<close>, and
  \<^verbatim>\<open>N/A\<close> for the bounding box and for the confidence. The file afterwards is what it
  held followed by these two rows. (When the first write raises, because the text cannot
  be encoded, the exception leaves the recorder and nothing is appended.)
\<close>

theorem C3_empty_detections_row:
  "recorder_writes lib None image_name extracted_text [] =
     (None, [text_row image_name extracted_text,
             csv_line [image_name, [], lit ''0'', lit ''No detection'', lit ''N/A'', lit ''N/A'']])
   \<and> save_results_to_csv lib None image_name extracted_text [] csv =
     (None, Some (content csv @ text_row image_name extracted_text @
        csv_line [image_name, [], lit ''0'', lit ''No detection'', lit ''N/A'', lit ''N/A'']))
   \<and> save_results_to_csv lib (Some (WriteRaises 0 e)) image_name extracted_text [] csv =
     (Some e, Some (content csv))"
  by (simp add: save_results_to_csv_def recorder_writes_def f_write_def
      no_detection_row_csv_line)

text \<open>
  C2. For a response with \<open>N \<ge> 1\<close> detections, each carrying its three keys, when
  neither opening the file nor a write raises, the recorder writes \<open>N + 1\<close> rows: the text
  row and then one row per detection, in order, and the third cell (Total Antennas) of
  every detection row is \<open>N\<close>. The file afterwards is what it held followed by these rows.
\<close>

theorem C2_detection_rows:
  assumes "antenna_detections \<noteq> []" and "\<forall>d \<in> set antenna_detections. complete d"
  shows "recorder_writes lib None image_name extracted_text antenna_detections =
     (None, text_row image_name extracted_text #
            map (\<lambda>d. csv_line [image_name, [], str_nat (length antenna_detections),
                         the (class_name d), str_int_list (the (bbox d)),
                         format_2f lib (the (confidence d))])
              antenna_detections)
     \<and> length (snd (recorder_writes lib None image_name extracted_text antenna_detections)) =
         length antenna_detections + 1
     \<and> save_results_to_csv lib None image_name extracted_text antenna_detections csv =
     (None, Some (content csv @
        concat (text_row image_name extracted_text #
                map (\<lambda>d. csv_line [image_name, [], str_nat (length antenna_detections),
                             the (class_name d), str_int_list (the (bbox d)),
                             format_2f lib (the (confidence d))])
                  antenna_detections)))"
  using assms
  by (simp add: save_results_to_csv_def recorder_writes_def f_write_no_fault
      write_detections_complete detection_row_csv_line)

theorem C2_detection_rows_witness:
  "[\<lparr>class_name = Some (lit ''panel''), bbox = Some [10, 10, 50, 60], confidence = Some (87::nat)\<rparr>,
    \<lparr>class_name = Some (lit ''dish''), bbox = Some [1, 2, 3, 4], confidence = Some 50\<rparr>] \<noteq> []
   \<and> complete \<lparr>class_name = Some (lit ''panel''), bbox = Some [10, 10, 50, 60], confidence = Some (87::nat)\<rparr>
   \<and> complete \<lparr>class_name = Some (lit ''dish''), bbox = Some [1, 2, 3, 4], confidence = Some (50::nat)\<rparr>
   \<and> recorder_writes example_libs None (lit ''t.jpg'') (lit ''TWR'')
        [\<lparr>class_name = Some (lit ''panel''), bbox = Some [10, 10, 50, 60], confidence = Some 87\<rparr>,
         \<lparr>class_name = Some (lit ''dish''), bbox = Some [1, 2, 3, 4], confidence = Some 50\<rparr>] =
      (None, [lit ''t.jpg,TWR,,,, \<newline>'',
              lit ''t.jpg,,2,panel,[10, 10, 50, 60],0.87\<newline>'',
              lit ''t.jpg,,2,dish,[1, 2, 3, 4],0.50\<newline>''])
   \<and> save_results_to_csv example_libs None (lit ''t.jpg'') (lit ''TWR'')
        [\<lparr>class_name = Some (lit ''panel''), bbox = Some [10, 10, 50, 60], confidence = Some 87\<rparr>,
         \<lparr>class_name = Some (lit ''dish''), bbox = Some [1, 2, 3, 4], confidence = Some 50\<rparr>]
        (Some CSV_HEADER) =
      (None, Some (CSV_HEADER @ lit ''t.jpg,TWR,,,, \<newline>''
         @ lit ''t.jpg,,2,panel,[10, 10, 50, 60],0.87\<newline>''
         @ lit ''t.jpg,,2,dish,[1, 2, 3, 4],0.50\<newline>''))"
  using C2_detection_rows [of
      "[\<lparr>class_name = Some (lit ''panel''), bbox = Some [10, 10, 50, 60], confidence = Some (87::nat)\<rparr>,
        \<lparr>class_name = Some (lit ''dish''), bbox = Some [1, 2, 3, 4], confidence = Some 50\<rparr>]"
      example_libs "lit ''t.jpg''" "lit ''TWR''" "Some CSV_HEADER"]
  by (simp add: complete_def content_def csv_line_def text_row_def example_libs_def
      str_int_list_def str_int_def str_nat.simps lit_def)

text \<open>
  C1, as the claim states it, fails: with an empty detection list and the text \<^verbatim>\<open>TWR\<close> the
  recorder writes two rows, not the single row \<^verbatim>\<open>a.jpg,TWR,,,,\<close>.
\<close>

theorem C1_two_rows_counterexample:
  "recorder_writes example_libs None (lit ''a.jpg'') (lit ''TWR'') [] =
     (None, [lit ''a.jpg,TWR,,,, \<newline>'', lit ''a.jpg,,0,No detection,N/A,N/A\<newline>''])
   \<and> length (snd (recorder_writes example_libs None (lit ''a.jpg'') (lit ''TWR'') [])) \<noteq> 1
   \<and> save_results_to_csv example_libs None (lit ''a.jpg'') (lit ''TWR'') [] (Some []) =
     (None, Some (lit ''a.jpg,TWR,,,, \<newline>'' @ lit ''a.jpg,,0,No detection,N/A,N/A\<newline>''))
   \<and> save_results_to_csv example_libs None (lit ''a.jpg'') (lit ''TWR'') [] (Some []) \<noteq>
     (None, Some (csv_line [lit ''a.jpg'', lit ''TWR'', [], [], [], []]))"
  by (simp add: save_results_to_csv_def recorder_writes_def f_write_def text_row_def
      no_detection_row_def csv_line_def content_def lit_def)

text \<open>
  C1, amended. For an empty detection list and a non-empty text, when neither opening the
  file nor a write raises, the recorder writes exactly two rows: one text row with the
  image name, that text, and empty Total Antennas, Class Name and Bounding Box cells,
  followed by the one \<^verbatim>\<open>No detection\<close> row; the file afterwards is what it held followed
  by these two rows. (What the text row holds in its last cell is left open here; it has
  no comma and no newline.)
\<close>

theorem C1_text_row_then_no_detection_row:
  assumes "extracted_text \<noteq> []"
  shows "\<exists>last. 44 \<notin> set last \<and> 10 \<notin> set last \<and>
     recorder_writes lib None image_name extracted_text [] =
       (None, [csv_line [image_name, extracted_text, [], [], [], last],
               csv_line [image_name, [], lit ''0'', lit ''No detection'', lit ''N/A'',
                         lit ''N/A'']]) \<and>
     save_results_to_csv lib None image_name extracted_text [] csv =
       (None, Some (content csv @
          concat [csv_line [image_name, extracted_text, [], [], [], last],
                  csv_line [image_name, [], lit ''0'', lit ''No detection'', lit ''N/A'',
                            lit ''N/A'']]))"
proof (intro exI conjI)
  show "recorder_writes lib None image_name extracted_text [] =
       (None, [csv_line [image_name, extracted_text, [], [], [], lit '' ''],
               csv_line [image_name, [], lit ''0'', lit ''No detection'', lit ''N/A'',
                         lit ''N/A'']])"
    using assms
    by (simp add: recorder_writes_def f_write_no_fault text_row_csv_line
        no_detection_row_csv_line)
  then show "save_results_to_csv lib None image_name extracted_text [] csv =
       (None, Some (content csv @
          concat [csv_line [image_name, extracted_text, [], [], [], lit '' ''],
                  csv_line [image_name, [], lit ''0'', lit ''No detection'', lit ''N/A'',
                            lit ''N/A'']]))"
    by (simp add: save_results_to_csv_def)
qed (simp_all add: lit_def)

theorem C1_text_row_then_no_detection_row_witness:
  "lit ''TWR'' \<noteq> [] \<and>
   (\<exists>last. 44 \<notin> set last \<and> 10 \<notin> set last \<and>
     recorder_writes example_libs None (lit ''a.jpg'') (lit ''TWR'') [] =
       (None, [lit ''a.jpg,TWR,,,,'' @ last @ lit ''\<newline>'',
               lit ''a.jpg,,0,No detection,N/A,N/A\<newline>'']) \<and>
     save_results_to_csv example_libs None (lit ''a.jpg'') (lit ''TWR'') [] None =
       (None, Some (lit ''a.jpg,TWR,,,,'' @ last @ lit ''\<newline>a.jpg,,0,No detection,N/A,N/A\<newline>'')))"
  using C1_text_row_then_no_detection_row [of "lit ''TWR''" example_libs "lit ''a.jpg''" None]
  by (simp add: content_def csv_line_def lit_def)

section \<open>Commas and newlines in the written rows\<close>

lemma length_split_on: "length (split_on c xs) = Suc (count_list xs c)"
  by (induction xs) auto

lemma nfields_line: "nfields (xs @ [10]) = Suc (count_list xs 44)"
  by (simp add: nfields_def length_split_on)

lemma count_str_nat: "c < 48 \<Longrightarrow> count_list (str_nat n) c = 0"
proof (induction n rule: str_nat.induct)
  case (1 n)
  then show ?case by (subst str_nat.simps) auto
qed

lemma count_str_int: "c < 45 \<Longrightarrow> count_list (str_int i) c = 0"
  by (simp add: str_int_def count_str_nat)

lemma count_join_commas:
  "count_list (join (lit '', '') (map str_int xs)) 44 = length xs - 1"
  by (induction xs rule: induct_list012) (auto simp: lit_def count_str_int)

lemma count_str_int_list_comma: "count_list (str_int_list bb) 44 = length bb - 1"
  by (simp add: str_int_list_def count_join_commas) (simp add: lit_def)

lemma nfields_text_row:
  "nfields (text_row image_name extracted_text) =
     6 + count_list image_name 44 + count_list extracted_text 44"
proof -
  have "text_row image_name extracted_text =
      (image_name @ lit '','' @ (if extracted_text \<noteq> [] then extracted_text else lit ''No text found'')
         @ lit '',,,, '') @ [10]"
    by (simp add: text_row_def lit_def)
  then show ?thesis
    by (simp only: nfields_line) (simp add: lit_def)
qed

lemma nfields_detection_row:
  "nfields (detection_row lib image_name n cls bb conf) =
     6 + count_list image_name 44 + count_list cls 44 + (length bb - 1)
       + count_list (format_2f lib conf) 44"
proof -
  have "detection_row lib image_name n cls bb conf =
      (image_name @ lit '',,'' @ str_nat n @ lit '','' @ cls @ lit '','' @ str_int_list bb
         @ lit '','' @ format_2f lib conf) @ [10]"
    by (simp add: detection_row_def lit_def)
  then show ?thesis
    by (simp only: nfields_line) (simp add: lit_def count_str_nat count_str_int_list_comma)
qed

lemma newlines_text_row:
  "count_list (text_row image_name extracted_text) 10 =
     1 + count_list image_name 10 + count_list extracted_text 10"
  by (simp add: text_row_def lit_def)

lemma count_list_zero_iff: "count_list xs c = 0 \<longleftrightarrow> c \<notin> set xs"
  by (induction xs) auto

text \<open>
  C10. The rows hold the image name, the text and the class name as they are, with no
  quoting: the text row has six comma-separated fields plus one for every comma of the
  image name and of the text, and the detection row six plus one for every comma of the
  image name, of the class name, of the printed bounding box and of the printed
  confidence. So a comma in the text (or in the class name) gives a row of more than six
  fields, and the text row is one line of six fields only when the image name and the
  text hold no comma and no newline.
\<close>

theorem C10_rows_not_quoted:
  "nfields (text_row image_name extracted_text) =
     6 + count_list image_name 44 + count_list extracted_text 44
   \<and> nfields (detection_row lib image_name n cls bb conf) =
     6 + count_list image_name 44 + count_list cls 44 + (length bb - 1)
       + count_list (format_2f lib conf) 44
   \<and> (44 \<in> set extracted_text \<longrightarrow> 6 < nfields (text_row image_name extracted_text))
   \<and> (44 \<in> set cls \<longrightarrow> 6 < nfields (detection_row lib image_name n cls bb conf))
   \<and> ((nfields (text_row image_name extracted_text) = 6
        \<and> count_list (text_row image_name extracted_text) 10 = 1)
       = (44 \<notin> set image_name \<and> 44 \<notin> set extracted_text
          \<and> 10 \<notin> set image_name \<and> 10 \<notin> set extracted_text))"
proof -
  have a: "44 \<in> set extracted_text \<Longrightarrow> 0 < count_list extracted_text 44"
    using count_list_zero_iff [of extracted_text 44] by auto
  have b: "44 \<in> set cls \<Longrightarrow> 0 < count_list cls 44"
    using count_list_zero_iff [of cls 44] by auto
  show ?thesis
    using a b
    by (auto simp: nfields_text_row nfields_detection_row newlines_text_row count_list_zero_iff)
qed

theorem C10_rows_not_quoted_witness:
  "44 \<in> set (lit ''A,B'') \<and> 6 < nfields (text_row (lit ''a.jpg'') (lit ''A,B''))
   \<and> nfields (text_row (lit ''a.jpg'') (lit ''A,B'')) = 7
   \<and> 44 \<in> set (lit ''pa,nel'')
   \<and> 6 < nfields (detection_row example_libs (lit ''a.jpg'') 1 (lit ''pa,nel'') [10, 10, 50, 60] 87)
   \<and> nfields (text_row (lit ''a.jpg'') (lit ''TWR'')) = 6"
  using C10_rows_not_quoted [of "lit ''a.jpg''" "lit ''A,B''" example_libs 1 "lit ''pa,nel''"
      "[10, 10, 50, 60]" 87]
    C10_rows_not_quoted [of "lit ''a.jpg''" "lit ''TWR''" example_libs 1 "lit ''pa,nel''"
      "[10, 10, 50, 60]" 87]
  by (simp add: lit_def)

section \<open>Processing one image: exceptions and reports\<close>

lemma process_image_no_exception: "fst (process_image lib env file w) = None"
  by (simp add: process_image_def Let_def split: prod.split option.split)

lemma process_batch_no_exception: "fst (process_batch lib files w) = None"
proof (induction files arbitrary: w)
  case Nil
  then show ?case by simp
next
  case (Cons a files)
  obtain u e where a: "a = (u, e)" by (cases a)
  obtain r w1 where p: "process_image lib e u w = (r, w1)" by (cases "process_image lib e u w")
  with process_image_no_exception [of lib e u w] have "r = None" by simp
  with a p Cons show ?case by simp
qed

text \<open>
  C5. When the upload was saved and the API answers with a status other than 200,
  \<^verbatim>\<open>process_image\<close> leaves the CSV file and the annotated folder as they were, reports
  \<^verbatim>\<open>API Error:\<close> with the status code in the sidebar, and does nothing else: the state
  afterwards holds the saved upload, the announcement and that one report.
\<close>

theorem C5_non_200:
  assumes "save_fault env = None" and "api env = Response status_code body"
    and "status_code \<noteq> 200"
  shows "process_image lib env file w =
     (None,
      w\<lparr>results_folder := (results_folder w)(name file \<mapsto> buffer file),
        events := events w @
          [SidebarWrite (announcement (name file)),
           SidebarError ([0x274C] @ lit '' API Error: '' @ str_int status_code)]\<rparr>)
     \<and> csv_file (snd (process_image lib env file w)) = csv_file w
     \<and> annotated_folder (snd (process_image lib env file w)) = annotated_folder w"
  using assms
  by (simp add: process_image_def process_image_body_def announcement_def Let_def)

theorem C5_non_200_witness:
  "save_fault (example_env (Response 503 (Inl (JSONDecodeError [])))) = None
   \<and> api (example_env (Response 503 (Inl (JSONDecodeError [])))) = Response 503 (Inl (JSONDecodeError []))
   \<and> (503::int) \<noteq> 200
   \<and> csv_file (snd (process_image example_libs (example_env (Response 503 (Inl (JSONDecodeError []))))
        example_upload example_world)) = Some CSV_HEADER
   \<and> annotated_folder (snd (process_image example_libs
        (example_env (Response 503 (Inl (JSONDecodeError [])))) example_upload example_world))
        (lit ''tower1.jpg'') = None
   \<and> events (snd (process_image example_libs (example_env (Response 503 (Inl (JSONDecodeError []))))
        example_upload example_world)) =
      [SidebarWrite ([0x1F504] @ lit '' Processing tower1.jpg...''),
       SidebarError ([0x274C] @ lit '' API Error: 503'')]"
  using C5_non_200 [of "example_env (Response 503 (Inl (JSONDecodeError [])))" 503
      "Inl (JSONDecodeError [])" example_libs example_upload example_world]
  by (simp add: example_env_def example_world_def example_upload_def announcement_def
      str_int_def str_nat.simps lit_def)

lemma announced_append [simp]: "announced (xs @ ys) = announced xs @ announced ys"
  by (induction xs rule: announced.induct) auto

lemma on_success_announced:
  "announced (events (snd (on_success lib env file result w))) = announced (events w)"
  by (simp add: on_success_def Let_def
      split: prod.split option.split sum.split imwrite_failure.split)

lemma process_image_body_announced:
  "announced (events (snd (process_image_body lib env file w))) = announced (events w)"
  by (simp add: process_image_body_def Let_def on_success_announced
      split: option.split api_outcome.split sum.split)

lemma process_image_announced:
  "announced (events (snd (process_image lib env file w))) =
     announced (events w) @ [announcement (name file)]"
proof -
  let ?w0 = "w\<lparr>events := events w @ [SidebarWrite (announcement (name file))]\<rparr>"
  obtain r w1 where b: "process_image_body lib env file ?w0 = (r, w1)"
    by (cases "process_image_body lib env file ?w0")
  have "announced (events w1) = announced (events ?w0)"
    using process_image_body_announced [of lib env "file" ?w0] b by simp
  then show ?thesis
    using b by (cases r) (simp_all add: process_image_def announcement_def Let_def)
qed

lemma process_batch_announced:
  "announced (events (snd (process_batch lib files w))) =
     announced (events w) @ map (\<lambda>(file, env). announcement (name file)) files"
proof (induction files arbitrary: w)
  case Nil
  then show ?case by simp
next
  case (Cons a files)
  obtain u e where a: "a = (u, e)" by (cases a)
  obtain r w1 where p: "process_image lib e u w = (r, w1)" by (cases "process_image lib e u w")
  have r: "r = None" using process_image_no_exception [of lib e u w] p by simp
  have "announced (events w1) = announced (events w) @ [announcement (name u)]"
    using process_image_announced [of lib e u w] p by simp
  then show ?case
    using a p r Cons.IH [of "w1\<lparr>events := events w1 @ [Sleep 1]\<rparr>"] by simp
qed

lemma ensure_csv_events: "events (snd (ensure_csv fault w)) = events w"
  by (simp add: ensure_csv_def f_write_def split: option.split csv_failure.split)

lemma ensure_csv_exists:
  "ensure_csv fault w = (None, w0) \<Longrightarrow> csv_file w0 \<noteq> None"
  by (auto simp: ensure_csv_def f_write_def split: option.splits csv_failure.splits if_splits)

lemma on_success_csv:
  "csv_file (snd (on_success lib env file result w)) =
     snd (save_results_to_csv lib (csv_fault env) (name file) (strip (all_text result))
            (detections_of result) (csv_file w))"
  by (simp add: on_success_def Let_def
      split: prod.split option.split sum.split imwrite_failure.split)

lemma save_results_exists:
  "csv \<noteq> None \<Longrightarrow>
   snd (save_results_to_csv lib fault image_name extracted_text antenna_detections csv) \<noteq> None"
  by (simp add: save_results_to_csv_def split: option.split csv_failure.split prod.split)

lemma process_image_exists:
  assumes "csv_file w \<noteq> None"
  shows "csv_file (snd (process_image lib env file w)) \<noteq> None"
proof -
  let ?w0 = "w\<lparr>events := events w @ [SidebarWrite (announcement (name file))]\<rparr>"
  have o: "csv_file (snd (on_success lib env file result
              (?w0\<lparr>results_folder := (results_folder ?w0)(name file \<mapsto> buffer file)\<rparr>))) \<noteq> None"
    for result
    using assms by (simp add: on_success_csv save_results_exists)
  have "csv_file (snd (process_image_body lib env file ?w0)) \<noteq> None"
    using assms o
    by (simp add: process_image_body_def Let_def
        split: option.split api_outcome.split sum.split)
  then show ?thesis
    by (cases "process_image_body lib env file ?w0")
       (auto simp: process_image_def announcement_def Let_def split: option.split)
qed

lemma process_batch_exists:
  "csv_file w \<noteq> None \<Longrightarrow> csv_file (snd (process_batch lib files w)) \<noteq> None"
proof (induction files arbitrary: w)
  case Nil
  then show ?case by simp
next
  case (Cons a files)
  obtain u e where a: "a = (u, e)" by (cases a)
  obtain r w1 where p: "process_image lib e u w = (r, w1)" by (cases "process_image lib e u w")
  have r: "r = None" using process_image_no_exception [of lib e u w] p by simp
  have "csv_file w1 \<noteq> None"
    using process_image_exists [OF Cons.prems, of lib e u] p by simp
  then show ?case
    using a p r Cons.IH [of "w1\<lparr>events := events w1 @ [Sleep 1]\<rparr>"] by simp
qed

text \<open>What a run that gets past \<^verbatim>\<open>os.makedirs\<close> and the header step does with its
  uploads, and how the run ends.\<close>

lemma script_run_unfold:
  assumes "makedirs_fault renv = None" and "ensure_csv (header_fault renv) w = (None, w0)"
  shows "\<exists>w3. process_batch lib uploaded_files
            (case uploaded_file of
               None \<Rightarrow> page_header w0
             | Some (file, env) \<Rightarrow> snd (process_image lib env file (page_header w0))) = (None, w3)
          \<and> csv_file w3 \<noteq> None
          \<and> script_run lib renv uploaded_file uploaded_files w =
              (case download_fault renv of
                 Some e \<Rightarrow> (Some e, w3)
               | None \<Rightarrow>
                   (None,
                    w3\<lparr>events := events w3 @
                       [DownloadButton ([0x1F4E5] @ lit '' Download CSV Results'')
                          (lit ''results.csv'')]\<rparr>))"
proof -
  let ?w2 = "case uploaded_file of
               None \<Rightarrow> page_header w0
             | Some (file, env) \<Rightarrow> snd (process_image lib env file (page_header w0))"
  have h: "csv_file (page_header w0) \<noteq> None"
    using ensure_csv_exists [OF assms(2)] by (simp add: page_header_def)
  have s: "(case uploaded_file of
              None \<Rightarrow> (None, page_header w0)
            | Some (file, env) \<Rightarrow> process_image lib env file (page_header w0)) = (None, ?w2)"
  proof (cases uploaded_file)
    case None
    then show ?thesis by simp
  next
    case (Some a)
    obtain u e where a: "a = (u, e)" by (cases a)
    show ?thesis
      using Some a process_image_no_exception [of lib e u "page_header w0"]
      by (simp add: prod_eq_iff)
  qed
  have e2: "csv_file ?w2 \<noteq> None"
    using h process_image_exists [OF h, of lib]
    by (cases uploaded_file) (auto split: prod.split)
  obtain w3 where b: "process_batch lib uploaded_files ?w2 = (None, w3)"
    using process_batch_no_exception [of lib uploaded_files ?w2]
    by (cases "process_batch lib uploaded_files ?w2") auto
  have e3: "csv_file w3 \<noteq> None"
    using process_batch_exists [OF e2, of lib uploaded_files] b by simp
  show ?thesis
    using assms s b e3 by (auto simp: script_run_def split: option.split)
qed

lemma script_run_exception:
  "fst (script_run lib renv uploaded_file uploaded_files w) =
     (case makedirs_fault renv of
        Some e \<Rightarrow> Some e
      | None \<Rightarrow>
          (case fst (ensure_csv (header_fault renv) w) of
             Some e \<Rightarrow> Some e
           | None \<Rightarrow> download_fault renv))"
proof (cases "makedirs_fault renv")
  case (Some e)
  then show ?thesis by (simp add: script_run_def)
next
  case None
  obtain r w0 where h: "ensure_csv (header_fault renv) w = (r, w0)"
    by (cases "ensure_csv (header_fault renv) w")
  show ?thesis
  proof (cases r)
    case (Some e)
    with None h show ?thesis by (simp add: script_run_def)
  next
    case n: None
    obtain w3 where "script_run lib renv uploaded_file uploaded_files w =
              (case download_fault renv of
                 Some e \<Rightarrow> (Some e, w3)
               | None \<Rightarrow>
                   (None,
                    w3\<lparr>events := events w3 @
                       [DownloadButton ([0x1F4E5] @ lit '' Download CSV Results'')
                          (lit ''results.csv'')]\<rparr>))"
      using script_run_unfold [OF None, of w w0 lib uploaded_files uploaded_file] h n by auto
    with None h n show ?thesis by (simp split: option.split)
  qed
qed

lemma script_run_announced:
  assumes "makedirs_fault renv = None" and "fst (ensure_csv (header_fault renv) w) = None"
  shows "announced (events (snd (script_run lib renv uploaded_file uploaded_files w))) =
     announced (events w)
       @ (case uploaded_file of None \<Rightarrow> [] | Some (file, env) \<Rightarrow> [announcement (name file)])
       @ map (\<lambda>(file, env). announcement (name file)) uploaded_files"
proof -
  obtain w0 where h: "ensure_csv (header_fault renv) w = (None, w0)"
    using assms(2) by (cases "ensure_csv (header_fault renv) w") auto
  let ?w2 = "case uploaded_file of
               None \<Rightarrow> page_header w0
             | Some (file, env) \<Rightarrow> snd (process_image lib env file (page_header w0))"
  obtain w3 where b: "process_batch lib uploaded_files ?w2 = (None, w3)"
    and s: "script_run lib renv uploaded_file uploaded_files w =
              (case download_fault renv of
                 Some e \<Rightarrow> (Some e, w3)
               | None \<Rightarrow>
                   (None,
                    w3\<lparr>events := events w3 @
                       [DownloadButton ([0x1F4E5] @ lit '' Download CSV Results'')
                          (lit ''results.csv'')]\<rparr>))"
    using script_run_unfold [OF assms(1) h, of lib uploaded_files uploaded_file] by auto
  have e0: "announced (events (page_header w0)) = announced (events w)"
    using ensure_csv_events [of "header_fault renv" w] h by (simp add: page_header_def)
  have e2: "announced (events ?w2) =
      announced (events w)
        @ (case uploaded_file of None \<Rightarrow> [] | Some (file, env) \<Rightarrow> [announcement (name file)])"
    using e0 by (cases uploaded_file) (auto simp: process_image_announced split: prod.split)
  have e3: "announced (events w3) =
      announced (events ?w2) @ map (\<lambda>(file, env). announcement (name file)) uploaded_files"
    using process_batch_announced [of lib uploaded_files ?w2] b by simp
  show ?thesis
    using s e2 e3 by (simp split: option.split)
qed

text \<open>
  C6. No exception leaves \<^verbatim>\<open>process_image\<close>: whatever the \<^verbatim>\<open>try\<close> body raises is caught
  and reported in the sidebar with its message. So the batch loop ends without an
  exception and announces (and so processes) every file of the batch, whatever happened
  to the files before it. A run can end with an exception only through its own
  unguarded steps (\<^verbatim>\<open>os.makedirs\<close>, the header step, opening the CSV file for the
  download), never through an image; and a run that gets past the first two of these
  steps processes every uploaded file.
\<close>

theorem C6_exceptions_caught:
  "fst (process_image lib env file w) = None
   \<and> (process_image_body lib env file
         (w\<lparr>events := events w @ [SidebarWrite (announcement (name file))]\<rparr>) = (Some e, w1)
       \<longrightarrow> process_image lib env file w =
             (None, w1\<lparr>events := events w1 @
                [SidebarError ([0x26A0, 0xFE0F] @ lit '' Error processing image: '' @ str_exn e)]\<rparr>))
   \<and> fst (process_batch lib files w) = None
   \<and> announced (events (snd (process_batch lib files w))) =
       announced (events w) @ map (\<lambda>(file, env). announcement (name file)) files
   \<and> fst (script_run lib renv uploaded_file uploaded_files w) =
       (case makedirs_fault renv of
          Some e \<Rightarrow> Some e
        | None \<Rightarrow>
            (case fst (ensure_csv (header_fault renv) w) of
               Some e \<Rightarrow> Some e
             | None \<Rightarrow> download_fault renv))
   \<and> (makedirs_fault renv = None \<and> fst (ensure_csv (header_fault renv) w) = None \<longrightarrow>
        announced (events (snd (script_run lib renv uploaded_file uploaded_files w))) =
          announced (events w)
            @ (case uploaded_file of None \<Rightarrow> [] | Some (file, env) \<Rightarrow> [announcement (name file)])
            @ map (\<lambda>(file, env). announcement (name file)) uploaded_files)"
proof -
  have "process_image_body lib env file
         (w\<lparr>events := events w @ [SidebarWrite (announcement (name file))]\<rparr>) = (Some e, w1)
       \<longrightarrow> process_image lib env file w =
             (None, w1\<lparr>events := events w1 @
                [SidebarError ([0x26A0, 0xFE0F] @ lit '' Error processing image: '' @ str_exn e)]\<rparr>)"
    by (simp add: process_image_def announcement_def Let_def)
  then show ?thesis
    using script_run_exception [of lib renv uploaded_file uploaded_files w]
      script_run_announced [of renv w lib uploaded_file uploaded_files]
    by (simp add: process_image_no_exception process_batch_no_exception
        process_batch_announced)
qed

theorem C6_exceptions_caught_witness:
  "process_image_body example_libs
      (example_env (PostRaised (RequestException (lit ''Connection refused'')))) example_upload
      (example_world\<lparr>events := events example_world @
          [SidebarWrite (announcement (name example_upload))]\<rparr>) =
     (Some (RequestException (lit ''Connection refused'')),
      example_world\<lparr>results_folder := [lit ''tower1.jpg'' \<mapsto> [48, 64, 7, 7, 7]],
         events := [SidebarWrite (announcement (lit ''tower1.jpg''))]\<rparr>)
   \<and> process_image example_libs
      (example_env (PostRaised (RequestException (lit ''Connection refused'')))) example_upload
      example_world =
     (None,
      example_world\<lparr>results_folder := [lit ''tower1.jpg'' \<mapsto> [48, 64, 7, 7, 7]],
         events :=
           [SidebarWrite ([0x1F504] @ lit '' Processing tower1.jpg...''),
            SidebarError ([0x26A0, 0xFE0F] @ lit '' Error processing image: Connection refused'')]\<rparr>)
   \<and> makedirs_fault quiet_run = None
   \<and> fst (ensure_csv (header_fault quiet_run) example_world) = None
   \<and> fst (script_run example_libs quiet_run None
        [(example_upload, example_env (PostRaised (RequestException (lit ''Connection refused'')))),
         (broken_upload, example_env (Response 200 (Inr example_result)))]
        example_world) = None
   \<and> announced (events (snd (script_run example_libs quiet_run None
        [(example_upload, example_env (PostRaised (RequestException (lit ''Connection refused'')))),
         (broken_upload, example_env (Response 200 (Inr example_result)))]
        example_world))) =
       [[0x1F504] @ lit '' Processing tower1.jpg...'', [0x1F504] @ lit '' Processing broken.png...'']"
  using C6_exceptions_caught [of example_libs
      "example_env (PostRaised (RequestException (lit ''Connection refused'')))" example_upload
      example_world "RequestException (lit ''Connection refused'')"
      "example_world\<lparr>results_folder := [lit ''tower1.jpg'' \<mapsto> [48, 64, 7, 7, 7]],
         events := [SidebarWrite (announcement (lit ''tower1.jpg''))]\<rparr>"
      "[(example_upload, example_env (PostRaised (RequestException (lit ''Connection refused'')))),
        (broken_upload, example_env (Response 200 (Inr example_result)))]"
      quiet_run None
      "[(example_upload, example_env (PostRaised (RequestException (lit ''Connection refused'')))),
        (broken_upload, example_env (Response 200 (Inr example_result)))]"]
  by (simp add: process_image_body_def ensure_csv_def quiet_run_def example_env_def
      example_world_def example_upload_def broken_upload_def announcement_def lit_def)

lemma save_results_complete:
  assumes "\<forall>d \<in> set antenna_detections. complete d"
  shows "fst (save_results_to_csv lib None image_name extracted_text antenna_detections csv) = None"
  using assms
  by (simp add: save_results_to_csv_def recorder_writes_def f_write_no_fault
      write_detections_complete)

text \<open>
  C8. For a path with no file, or with a file that cannot be decoded, the annotator
  returns \<open>None\<close> and raises nothing. When the saved upload cannot be decoded (and the
  API answered 200 with detections that the recorder wrote), \<^verbatim>\<open>process_image\<close> ends
  without an exception and without an error report, writes nothing into the annotated
  folder and shows no image: after the table of detections no further call is recorded.
\<close>

theorem C8_unreadable_image:
  assumes "imdecode lib (buffer file) = None"
    and "save_fault env = None" and "api env = Response 200 (Inr result)"
    and "csv_fault env = None"
    and "detections_of result \<noteq> []" and "\<forall>d \<in> set (detections_of result). complete d"
  shows "((case folder image_path of None \<Rightarrow> None | Some b \<Rightarrow> imdecode lib b) = None
          \<longrightarrow> draw_bounding_boxes lib folder image_path antenna_detections = Inr None)
     \<and> fst (process_image lib env file w) = None
     \<and> annotated_folder (snd (process_image lib env file w)) = annotated_folder w
     \<and> events (snd (process_image lib env file w)) =
         events w @
         [SidebarWrite (announcement (name file)),
          SidebarSuccess ([0x2705] @ lit '' Processed: '' @ name file),
          Subheader ([0x1F4DD] @ lit '' Extracted Text''),
          Write (if strip (all_text result) \<noteq> [] then strip (all_text result)
                 else lit ''No text found''),
          Subheader ([0x1F4E1] @ lit '' Antenna Detections''),
          Dataframe (detections_of result)]"
proof -
  obtain csv where s: "save_results_to_csv lib None (name file) (strip (all_text result))
      (detections_of result) (csv_file w) = (None, csv)"
    using save_results_complete [OF assms(6), of lib "name file" "strip (all_text result)" "csv_file w"]
    by (metis prod.collapse)
  have d: "draw_bounding_boxes lib ((results_folder w)(name file \<mapsto> buffer file)) (name file)
      (detections_of result) = Inr None"
    using assms(1) by (simp add: draw_bounding_boxes_def)
  show ?thesis
    using assms(2-5) s d
    by (simp add: process_image_def process_image_body_def on_success_def announcement_def
        draw_bounding_boxes_def Let_def)
qed

theorem C8_unreadable_image_witness:
  "imdecode example_libs (buffer broken_upload) = None
   \<and> save_fault (example_env (Response 200 (Inr example_result))) = None
   \<and> api (example_env (Response 200 (Inr example_result))) = Response 200 (Inr example_result)
   \<and> csv_fault (example_env (Response 200 (Inr example_result))) = None
   \<and> detections_of example_result = [example_detection]
   \<and> complete example_detection
   \<and> draw_bounding_boxes example_libs [lit ''broken.png'' \<mapsto> [0]] (lit ''broken.png'')
        [example_detection] = Inr None
   \<and> fst (process_image example_libs (example_env (Response 200 (Inr example_result)))
        broken_upload example_world) = None
   \<and> annotated_folder (snd (process_image example_libs
        (example_env (Response 200 (Inr example_result))) broken_upload example_world))
        (lit ''broken.png'') = None
   \<and> events (snd (process_image example_libs (example_env (Response 200 (Inr example_result)))
        broken_upload example_world)) =
       [SidebarWrite ([0x1F504] @ lit '' Processing broken.png...''),
        SidebarSuccess ([0x2705] @ lit '' Processed: broken.png''),
        Subheader ([0x1F4DD] @ lit '' Extracted Text''),
        Write (lit ''TWR-001''),
        Subheader ([0x1F4E1] @ lit '' Antenna Detections''),
        Dataframe [example_detection]]"
  using C8_unreadable_image [of example_libs broken_upload
      "example_env (Response 200 (Inr example_result))" example_result
      "[lit ''broken.png'' \<mapsto> [0]]" "lit ''broken.png''" "[example_detection]" example_world]
  by (simp add: example_libs_def broken_upload_def example_env_def example_result_def
      example_detection_def example_world_def detections_of_def all_text_def complete_def
      strip_def py_isspace_def announcement_def lit_def)

section \<open>The text is stripped\<close>

lemma strip_whitespace:
  assumes "\<forall>c \<in> set t. py_isspace c"
  shows "strip t = []"
  using assms by (auto simp: strip_def dest: set_dropWhileD)

lemma strip_split:
  "s = takeWhile py_isspace s @ strip s
         @ rev (takeWhile py_isspace (rev (dropWhile py_isspace s)))"
proof -
  let ?a = "dropWhile py_isspace s"
  have "rev (takeWhile py_isspace (rev ?a) @ dropWhile py_isspace (rev ?a)) = rev (rev ?a)"
    by (simp only: takeWhile_dropWhile_id)
  then have a: "strip s @ rev (takeWhile py_isspace (rev ?a)) = ?a"
    by (simp only: rev_append rev_rev_ident strip_def)
  have "s = takeWhile py_isspace s @ ?a"
    by simp
  then show ?thesis
    by (simp only: a)
qed

lemma strip_ends:
  assumes "strip s \<noteq> []"
  shows "\<not> py_isspace (hd (strip s)) \<and> \<not> py_isspace (last (strip s))"
proof -
  let ?a = "dropWhile py_isspace s"
  let ?b = "dropWhile py_isspace (rev ?a)"
  have b: "?b \<noteq> []" using assms by (simp add: strip_def)
  have a: "?a \<noteq> []"
  proof
    assume "?a = []"
    then have "?b = []" by (metis dropWhile.simps(1) rev.simps(1))
    with b show False by (simp only: not_True_eq_False simp_thms)
  qed
  have "\<not> py_isspace (hd ?b)" using b by (rule hd_dropWhile)
  then have l: "\<not> py_isspace (last (strip s))"
    using b by (simp add: strip_def last_rev)
  have "rev ?a = takeWhile py_isspace (rev ?a) @ ?b" by simp
  then have "last (rev ?a) = last ?b"
    using b by (metis last_appendR)
  then have "hd ?a = last ?b"
    using a by (simp add: last_rev)
  moreover have "\<not> py_isspace (hd ?a)" using a by (rule hd_dropWhile)
  ultimately have "\<not> py_isspace (hd (strip s))"
    using b by (simp add: strip_def hd_rev)
  with l show ?thesis by simp
qed

lemma strip_idem: "strip (strip s) = strip s"
proof (cases "strip s = []")
  case True
  have "strip [] = []" by (simp add: strip_def)
  with True show ?thesis by simp
next
  case False
  then have e: "\<not> py_isspace (hd (strip s))" "\<not> py_isspace (last (strip s))"
    using strip_ends by auto
  have 1: "dropWhile py_isspace (strip s) = strip s"
    using False e(1) by (cases "strip s") auto
  obtain x xs where r: "rev (strip s) = x # xs"
    using False by (cases "rev (strip s)") auto
  have "hd (rev (strip s)) = last (strip s)"
    using False by (simp add: hd_rev)
  then have "x = last (strip s)"
    using r by simp
  then have nx: "\<not> py_isspace x"
    using e(2) by simp
  have 2: "dropWhile py_isspace (rev (strip s)) = rev (strip s)"
    unfolding r using nx by simp
  show ?thesis
    unfolding strip_def [of "strip s"] 1 2 by simp
qed

lemma recorder_writes_first:
  "snd (recorder_writes lib None image_name extracted_text antenna_detections) \<noteq> []
   \<and> hd (snd (recorder_writes lib None image_name extracted_text antenna_detections)) =
       text_row image_name extracted_text"
proof -
  have w: "written \<noteq> [] \<Longrightarrow>
      snd (write_detections lib None image_name n ds written) \<noteq> []
      \<and> hd (snd (write_detections lib None image_name n ds written)) = hd written"
    for n ds written
    by (induction ds arbitrary: written)
       (auto simp: f_write_no_fault split: option.split)
  show ?thesis
    using w [of "[text_row image_name extracted_text]"]
    by (simp add: recorder_writes_def f_write_no_fault)
qed

lemma process_image_csv_200:
  assumes "save_fault env = None" and "api env = Response 200 (Inr result)"
  shows "csv_file (snd (process_image lib env file w)) =
     snd (save_results_to_csv lib (csv_fault env) (name file) (strip (all_text result))
            (detections_of result) (csv_file w))"
proof -
  let ?w1 = "w\<lparr>events := events w @ [SidebarWrite (announcement (name file))],
               results_folder := (results_folder w)(name file \<mapsto> buffer file)\<rparr>"
  have "csv_file (snd (process_image lib env file w)) =
          csv_file (snd (on_success lib env file result ?w1))"
    using assms
    by (simp add: process_image_def process_image_body_def announcement_def Let_def
        split: prod.split option.split)
  then show ?thesis by (simp add: on_success_csv)
qed

text \<open>
  C9. The text is stripped of its leading and trailing whitespace before it is used:
  \<^verbatim>\<open>all_text\<close> is whitespace, then the stripped text, then whitespace, and a stripped text
  that is not empty neither starts nor ends with whitespace; \<^verbatim>\<open>process_image\<close> does with
  a 200 response exactly what it does with the response whose \<^verbatim>\<open>all_text\<close> is already
  stripped; the recorder is called with the stripped text, and when nothing fails its
  first row is the text row of the stripped text. So when \<^verbatim>\<open>all_text\<close> is absent or holds
  only whitespace, the stripped text is empty, \<^verbatim>\<open>process_image\<close> does exactly what it does
  for the empty string, and the text row written is the \<^verbatim>\<open>No text found\<close> row.
\<close>

theorem C9_text_stripped:
  assumes "api env = Response 200 (Inr result)"
  shows "(\<exists>before after.
            all_text result = before @ strip (all_text result) @ after
            \<and> (\<forall>c \<in> set before. py_isspace c) \<and> (\<forall>c \<in> set after. py_isspace c))
     \<and> (strip (all_text result) \<noteq> [] \<longrightarrow>
          \<not> py_isspace (hd (strip (all_text result)))
          \<and> \<not> py_isspace (last (strip (all_text result))))
     \<and> process_image lib env file w =
         process_image lib
           (env\<lparr>api := Response 200
              (Inr (result\<lparr>get_text_detections := Some (Some (strip (all_text result)))\<rparr>))\<rparr>)
           file w
     \<and> (save_fault env = None \<longrightarrow>
          csv_file (snd (process_image lib env file w)) =
            snd (save_results_to_csv lib (csv_fault env) (name file) (strip (all_text result))
                   (detections_of result) (csv_file w)))
     \<and> (save_fault env = None \<and> csv_fault env = None \<longrightarrow>
          (\<exists>rest. csv_file (snd (process_image lib env file w)) =
             Some (content (csv_file w) @ text_row (name file) (strip (all_text result))
                     @ rest)))
     \<and> ((\<forall>c \<in> set (all_text result). py_isspace c) \<longrightarrow>
          strip (all_text result) = []
          \<and> text_row (name file) (strip (all_text result)) =
              csv_line [name file, lit ''No text found'', [], [], [], lit '' ''])"
proof -
  let ?t = "strip (all_text result)"
  let ?result' = "result\<lparr>get_text_detections := Some (Some ?t)\<rparr>"
  let ?env' = "env\<lparr>api := Response 200 (Inr ?result')\<rparr>"
  have c1: "\<exists>before after. all_text result = before @ ?t @ after
            \<and> (\<forall>c \<in> set before. py_isspace c) \<and> (\<forall>c \<in> set after. py_isspace c)"
  proof (intro exI conjI)
    show "all_text result = takeWhile py_isspace (all_text result) @ ?t
            @ rev (takeWhile py_isspace (rev (dropWhile py_isspace (all_text result))))"
      by (rule strip_split)
  qed (auto dest: set_takeWhileD)
  have c2: "?t \<noteq> [] \<longrightarrow> \<not> py_isspace (hd ?t) \<and> \<not> py_isspace (last ?t)"
    using strip_ends by blast
  have e: "strip (all_text ?result') = ?t"
    by (simp add: all_text_def strip_idem)
  have d: "detections_of ?result' = detections_of result"
    by (simp add: detections_of_def)
  have o: "on_success lib env file result = on_success lib ?env' file ?result'"
    by (rule ext)
       (simp add: on_success_def e d Let_def
         split: prod.split option.split sum.split imwrite_failure.split)
  have c3: "process_image lib env file w = process_image lib ?env' file w"
  proof -
    have "process_image_body lib env file w' = process_image_body lib ?env' file w'" for w'
      using assms
      by (cases "save_fault env") (simp_all add: process_image_body_def o Let_def)
    then show ?thesis by (simp add: process_image_def)
  qed
  have c4: "save_fault env = None \<longrightarrow>
          csv_file (snd (process_image lib env file w)) =
            snd (save_results_to_csv lib (csv_fault env) (name file) ?t
                   (detections_of result) (csv_file w))"
    using assms by (simp add: process_image_csv_200)
  have c5: "save_fault env = None \<and> csv_fault env = None \<longrightarrow>
          (\<exists>rest. csv_file (snd (process_image lib env file w)) =
             Some (content (csv_file w) @ text_row (name file) ?t @ rest))"
  proof (intro impI, elim conjE)
    assume s: "save_fault env = None" and f: "csv_fault env = None"
    let ?rows = "snd (recorder_writes lib None (name file) ?t (detections_of result))"
    have "?rows = text_row (name file) ?t # tl ?rows"
      using recorder_writes_first [of lib "name file" ?t "detections_of result"]
      by (cases ?rows) auto
    then have "concat ?rows = text_row (name file) ?t @ concat (tl ?rows)"
      by (metis concat.simps(2))
    then have "csv_file (snd (process_image lib env file w)) =
        Some (content (csv_file w) @ text_row (name file) ?t @ concat (tl ?rows))"
      using assms s f
      by (simp add: process_image_csv_200 save_results_to_csv_def case_prod_unfold)
    then show "\<exists>rest. csv_file (snd (process_image lib env file w)) =
             Some (content (csv_file w) @ text_row (name file) ?t @ rest)"
      by blast
  qed
  have c6: "(\<forall>c \<in> set (all_text result). py_isspace c) \<longrightarrow>
          ?t = [] \<and> text_row (name file) ?t =
              csv_line [name file, lit ''No text found'', [], [], [], lit '' '']"
    by (auto simp: strip_whitespace text_row_csv_line)
  show ?thesis
    using c1 c2 c3 c4 c5 c6 by blast
qed

theorem C9_text_stripped_witness:
  "api (example_env (Response 200 (Inr \<lparr>get_text_detections = Some (Some (lit ''  TWR 9 '' @ [10])),
          get_antenna_detections = Some []\<rparr>))) =
     Response 200 (Inr \<lparr>get_text_detections = Some (Some (lit ''  TWR 9 '' @ [10])),
          get_antenna_detections = Some []\<rparr>)
   \<and> save_fault (example_env (Response 200 (Inr \<lparr>get_text_detections =
          Some (Some (lit ''  TWR 9 '' @ [10])), get_antenna_detections = Some []\<rparr>))) = None
   \<and> csv_fault (example_env (Response 200 (Inr \<lparr>get_text_detections =
          Some (Some (lit ''  TWR 9 '' @ [10])), get_antenna_detections = Some []\<rparr>))) = None
   \<and> strip (lit ''  TWR 9 '' @ [10]) = lit ''TWR 9''
   \<and> csv_file (snd (process_image example_libs
         (example_env (Response 200 (Inr \<lparr>get_text_detections = Some (Some (lit ''  TWR 9 '' @ [10])),
                get_antenna_detections = Some []\<rparr>))) example_upload example_world)) =
       Some (CSV_HEADER @ lit ''tower1.jpg,TWR 9,,,, \<newline>''
               @ lit ''tower1.jpg,,0,No detection,N/A,N/A\<newline>'')
   \<and> py_isspace 32 \<and> py_isspace 9 \<and> py_isspace 10 \<and> py_isspace 160
   \<and> all_text \<lparr>get_text_detections = Some (Some [32, 9, 10, 160]),
                get_antenna_detections = Some ([] :: nat detection list)\<rparr> = [32, 9, 10, 160]
   \<and> api (example_env (Response 200 (Inr \<lparr>get_text_detections = Some (Some [32, 9, 10, 160]),
                get_antenna_detections = Some []\<rparr>))) =
       Response 200 (Inr \<lparr>get_text_detections = Some (Some [32, 9, 10, 160]),
                get_antenna_detections = Some []\<rparr>)
   \<and> strip [32, 9, 10, 160] = []
   \<and> csv_file (snd (process_image example_libs
         (example_env (Response 200 (Inr \<lparr>get_text_detections = Some (Some [32, 9, 10, 160]),
                get_antenna_detections = Some []\<rparr>))) example_upload example_world)) =
       Some (CSV_HEADER @ lit ''tower1.jpg,No text found,,,, \<newline>''
               @ lit ''tower1.jpg,,0,No detection,N/A,N/A\<newline>'')"
  using C9_text_stripped [of
      "example_env (Response 200 (Inr \<lparr>get_text_detections = Some (Some (lit ''  TWR 9 '' @ [10])),
                get_antenna_detections = Some []\<rparr>))"
      "\<lparr>get_text_detections = Some (Some (lit ''  TWR 9 '' @ [10])),
                get_antenna_detections = Some ([] :: nat detection list)\<rparr>"
      example_libs example_upload example_world]
    C9_text_stripped [of
      "example_env (Response 200 (Inr \<lparr>get_text_detections = Some (Some [32, 9, 10, 160]),
                get_antenna_detections = Some []\<rparr>))"
      "\<lparr>get_text_detections = Some (Some [32, 9, 10, 160]),
                get_antenna_detections = Some ([] :: nat detection list)\<rparr>"
      example_libs example_upload example_world]
  by (simp add: process_image_def process_image_body_def on_success_def save_results_to_csv_def
      recorder_writes_def f_write_def content_def
      text_row_def no_detection_row_def example_env_def example_world_def example_upload_def
      all_text_def detections_of_def strip_def py_isspace_def Let_def lit_def)

text \<open>
  C7. The example of the specification: image \<^verbatim>\<open>tower1.jpg\<close>, text \<^verbatim>\<open>TWR-001\<close>, one
  detection \<^verbatim>\<open>panel\<close> at \<^verbatim>\<open>[10, 10, 50, 60]\<close> with a confidence that Python prints as
  \<^verbatim>\<open>0.87\<close> and, times 100, as \<^verbatim>\<open>87.0\<close>. The annotated file holds a green rectangle from
  (10,10) to (50,60) and the label \<^verbatim>\<open>panel (87.0%)\<close>, and the detection row is
  \<^verbatim>\<open>tower1.jpg,,1,panel,[10, 10, 50, 60],0.87\<close>, as stated; but the text row the code
  appends ends with a space after its last comma, so the CSV file does not gain the row
  \<^verbatim>\<open>tower1.jpg,TWR-001,,,,\<close>.
\<close>

theorem C7_tower1_example:
  assumes "format_2f lib conf = lit ''0.87''" and "format_pct lib conf = lit ''87.0''"
    and "imdecode lib (buffer file) = Some img"
    and "get_text_size lib (lit ''panel (87.0%)'') (font_scale_of lib (width img))
           (max 2 (width img div 600)) = (tw, th)"
    and "name file = lit ''tower1.jpg''"
    and "save_fault env = None" and "csv_fault env = None" and "imwrite_fault env = None"
    and "api env = Response 200 (Inr
           \<lparr>get_text_detections = Some (Some (lit ''TWR-001'')),
            get_antenna_detections = Some
              [\<lparr>class_name = Some (lit ''panel''), bbox = Some [10, 10, 50, 60],
                confidence = Some conf\<rparr>]\<rparr>)"
  shows "csv_file (snd (process_image lib env file w)) =
       Some (content (csv_file w) @ lit ''tower1.jpg,TWR-001,,,, \<newline>''
               @ lit ''tower1.jpg,,1,panel,[10, 10, 50, 60],0.87\<newline>'')
     \<and> csv_file (snd (process_image lib env file w)) \<noteq>
       Some (content (csv_file w) @ lit ''tower1.jpg,TWR-001,,,,\<newline>''
               @ lit ''tower1.jpg,,1,panel,[10, 10, 50, 60],0.87\<newline>'')
     \<and> annotated_folder (snd (process_image lib env file w)) (lit ''tower1.jpg'') =
       Some (img,
         [Rectangle (10, 10) (50, 60) (0, 255, 0) (max 3 (width img div 300)),
          Rectangle (10, max 0 (th + 10) - th - 5) (10 + tw, max 0 (th + 10) + 5) (0, 0, 0) (- 1),
          PutText (lit ''panel (87.0%)'') (10, max 0 (th + 10)) (font_scale_of lib (width img))
            (255, 255, 255) (max 2 (width img div 600))])"
proof -
  have l: "lit ''panel'' @ lit '' ('' @ lit ''87.0'' @ lit ''%)'' = lit ''panel (87.0%)''"
    by (simp add: lit_def)
  have s: "strip (lit ''TWR-001'') = lit ''TWR-001''"
    by (simp add: strip_def py_isspace_def lit_def)
  have r: "save_results_to_csv lib None (lit ''tower1.jpg'') (lit ''TWR-001'')
      [\<lparr>class_name = Some (lit ''panel''), bbox = Some [10, 10, 50, 60], confidence = Some conf\<rparr>]
      (csv_file w) =
     (None, Some (content (csv_file w) @ lit ''tower1.jpg,TWR-001,,,, \<newline>''
               @ lit ''tower1.jpg,,1,panel,[10, 10, 50, 60],0.87\<newline>''))"
    using assms(1)
    by (simp add: save_results_to_csv_def recorder_writes_def f_write_no_fault text_row_def
        detection_row_def str_int_list_def str_int_def str_nat.simps lit_def)
  have d: "draw_bounding_boxes lib ((results_folder w)(lit ''tower1.jpg'' \<mapsto> buffer file))
      (lit ''tower1.jpg'')
      [\<lparr>class_name = Some (lit ''panel''), bbox = Some [10, 10, 50, 60], confidence = Some conf\<rparr>] =
     Inr (Some (img,
         [Rectangle (10, 10) (50, 60) (0, 255, 0) (max 3 (width img div 300)),
          Rectangle (10, max 0 (th + 10) - th - 5) (10 + tw, max 0 (th + 10) + 5) (0, 0, 0) (- 1),
          PutText (lit ''panel (87.0%)'') (10, max 0 (th + 10)) (font_scale_of lib (width img))
            (255, 255, 255) (max 2 (width img div 600))]))"
    using assms(2,3,4) by (simp add: draw_bounding_boxes_def c_int_def l Let_def)
  let ?result = "\<lparr>get_text_detections = Some (Some (lit ''TWR-001'')),
         get_antenna_detections = Some
           [\<lparr>class_name = Some (lit ''panel''), bbox = Some [10, 10, 50, 60],
             confidence = Some conf\<rparr>]\<rparr>"
  let ?w1 = "w\<lparr>events := events w @ [SidebarWrite (announcement (name file))],
           results_folder := (results_folder w)(name file \<mapsto> buffer file)\<rparr>"
  have p: "csv_file (snd (process_image lib env file w)) =
        csv_file (snd (on_success lib env file ?result ?w1))
      \<and> annotated_folder (snd (process_image lib env file w)) =
        annotated_folder (snd (on_success lib env file ?result ?w1))"
    using assms(6,9)
    by (simp add: process_image_def process_image_body_def announcement_def Let_def
        split: prod.split option.split)
  show ?thesis
    using assms(5,7,8) r d
    by (simp add: p on_success_def all_text_def detections_of_def s Let_def)
       (simp add: lit_def)
qed

theorem C7_tower1_example_witness:
  "format_2f example_libs 87 = lit ''0.87'' \<and> format_pct example_libs 87 = lit ''87.0''
   \<and> imdecode example_libs (buffer example_upload) = Some \<lparr>height = 48, width = 64, pixels = [7, 7, 7]\<rparr>
   \<and> get_text_size example_libs (lit ''panel (87.0%)'') (font_scale_of example_libs 64) 2 = (130, 20)
   \<and> name example_upload = lit ''tower1.jpg''
   \<and> example_env (Response 200 (Inr example_result)) =
       \<lparr>save_fault = None, api = Response 200 (Inr example_result), csv_fault = None,
        imwrite_fault = None\<rparr>
   \<and> csv_file (snd (process_image example_libs (example_env (Response 200 (Inr example_result)))
         example_upload example_world)) =
       Some (CSV_HEADER @ lit ''tower1.jpg,TWR-001,,,, \<newline>''
               @ lit ''tower1.jpg,,1,panel,[10, 10, 50, 60],0.87\<newline>'')
   \<and> annotated_folder (snd (process_image example_libs
         (example_env (Response 200 (Inr example_result))) example_upload example_world))
         (lit ''tower1.jpg'') =
       Some (\<lparr>height = 48, width = 64, pixels = [7, 7, 7]\<rparr>,
         [Rectangle (10, 10) (50, 60) (0, 255, 0) 3,
          Rectangle (10, 5) (140, 35) (0, 0, 0) (- 1),
          PutText (lit ''panel (87.0%)'') (10, 30) 60 (255, 255, 255) 2])"
  using C7_tower1_example [of example_libs 87 example_upload
      "\<lparr>height = 48, width = 64, pixels = [7, 7, 7]\<rparr>" 130 20
      "example_env (Response 200 (Inr example_result))" example_world]
  by (simp add: example_libs_def example_upload_def example_env_def example_result_def
      example_detection_def example_world_def content_def str_nat.simps lit_def)

section \<open>The header across runs\<close>

lemma adjacent_commas_append: "adjacent_commas (xs @ 44 # 44 # ys)"
  by (induction xs rule: induct_list012) auto

lemma adjacent_commas_text_row: "adjacent_commas (text_row image_name extracted_text)"
proof -
  have "text_row image_name extracted_text =
      (image_name @ lit '','' @ (if extracted_text \<noteq> [] then extracted_text
         else lit ''No text found'')) @ 44 # 44 # lit '',, \<newline>''"
    by (simp add: text_row_def lit_def)
  then show ?thesis by (simp only: adjacent_commas_append)
qed

lemma adjacent_commas_detection_row:
  "adjacent_commas (detection_row lib image_name n cls bb conf)"
proof -
  have "detection_row lib image_name n cls bb conf =
      image_name @ 44 # 44 # (str_nat n @ lit '','' @ cls @ lit '','' @ str_int_list bb
        @ lit '','' @ format_2f lib conf @ lit ''\<newline>'')"
    by (simp add: detection_row_def lit_def)
  then show ?thesis by (simp only: adjacent_commas_append)
qed

lemma adjacent_commas_no_detection_row: "adjacent_commas (no_detection_row image_name)"
proof -
  have "no_detection_row image_name = image_name @ 44 # 44 # lit ''0,No detection,N/A,N/A\<newline>''"
    by (simp add: no_detection_row_def lit_def)
  then show ?thesis by (simp only: adjacent_commas_append)
qed

lemma header_no_adjacent_commas: "\<not> adjacent_commas CSV_HEADER"
  by (simp add: CSV_HEADER_def lit_def)

lemma f_write_rows:
  "f_write fault written row = Inr written' \<Longrightarrow> written' = written @ [row]"
  by (auto simp: f_write_def split: option.splits csv_failure.splits if_splits)

lemma write_detections_rows:
  "\<forall>r \<in> set written. adjacent_commas r \<Longrightarrow>
   \<forall>r \<in> set (snd (write_detections lib fault image_name n ds written)). adjacent_commas r"
proof (induction ds arbitrary: written)
  case Nil
  then show ?case by simp
next
  case (Cons d ds)
  show ?case
  proof (cases "complete d")
    case False
    then show ?thesis
      using Cons.prems by (auto simp: complete_def split: option.split)
  next
    case True
    then obtain cls bb conf where
      d: "class_name d = Some cls" "bbox d = Some bb" "confidence d = Some conf"
      by (auto simp: complete_def)
    show ?thesis
    proof (cases "f_write fault written (detection_row lib image_name n cls bb conf)")
      case (Inl e)
      with d Cons.prems show ?thesis by simp
    next
      case (Inr written')
      then have "written' = written @ [detection_row lib image_name n cls bb conf]"
        by (rule f_write_rows)
      then have "\<forall>r \<in> set written'. adjacent_commas r"
        using Cons.prems by (auto simp: adjacent_commas_detection_row)
      then show ?thesis
        using d Inr Cons.IH [of written'] by simp
    qed
  qed
qed

lemma recorder_writes_rows:
  "\<forall>r \<in> set (snd (recorder_writes lib fault image_name extracted_text antenna_detections)).
     adjacent_commas r"
proof (cases "f_write fault [] (text_row image_name extracted_text)")
  case (Inl e)
  then show ?thesis by (simp add: recorder_writes_def)
next
  case (Inr written)
  then have w: "written = [text_row image_name extracted_text]"
    using f_write_rows by fastforce
  show ?thesis
  proof (cases "antenna_detections = []")
    case False
    then show ?thesis
      using Inr w
        write_detections_rows [of written lib fault image_name "length antenna_detections"
          antenna_detections]
      by (simp add: recorder_writes_def adjacent_commas_text_row)
  next
    case True
    show ?thesis
    proof (cases "f_write fault written (no_detection_row image_name)")
      case (Inl e)
      with True Inr w show ?thesis
        by (simp add: recorder_writes_def adjacent_commas_text_row)
    next
      case r: (Inr written')
      then have "written' = written @ [no_detection_row image_name]"
        by (rule f_write_rows)
      with True Inr r w show ?thesis
        by (simp add: recorder_writes_def adjacent_commas_text_row
            adjacent_commas_no_detection_row)
    qed
  qed
qed

lemma image_writes_rows: "\<forall>r \<in> set (image_writes lib fe). adjacent_commas r"
proof -
  have "image_writes lib fe = []
      \<or> (\<exists>fault image_name extracted_text antenna_detections.
            image_writes lib fe =
              snd (recorder_writes lib fault image_name extracted_text antenna_detections))"
    by (cases fe)
       (simp add: image_writes_def
         split: option.split api_outcome.split sum.split csv_failure.split, blast)
  then show ?thesis
    using recorder_writes_rows [of lib] by auto
qed

lemma run_writes_rows: "\<forall>r \<in> set (run_writes lib run). adjacent_commas r"
proof -
  obtain renv uf ufs where r: "run = (renv, uf, ufs)" by (cases run)
  show ?thesis
    using image_writes_rows
    by (auto simp: run_writes_def r split: option.split)
qed

lemma process_image_csv:
  "csv_file (snd (process_image lib env file w)) =
     (case save_fault env of
        Some e \<Rightarrow> csv_file w
      | None \<Rightarrow>
          (case api env of
             PostRaised e \<Rightarrow> csv_file w
           | Response status_code body \<Rightarrow>
               if status_code = 200 then
                 (case body of
                    Inl e \<Rightarrow> csv_file w
                  | Inr result \<Rightarrow>
                      snd (save_results_to_csv lib (csv_fault env) (name file)
                             (strip (all_text result)) (detections_of result) (csv_file w)))
               else csv_file w))"
proof -
  let ?w0 = "w\<lparr>events := events w @ [SidebarWrite (announcement (name file))]\<rparr>"
  have b: "csv_file (snd (process_image lib env file w)) =
      csv_file (snd (process_image_body lib env file ?w0))"
    by (cases "process_image_body lib env file ?w0")
       (auto simp: process_image_def announcement_def Let_def split: option.split)
  show ?thesis
    unfolding b
    by (simp add: process_image_body_def on_success_csv Let_def
        split: option.split api_outcome.split sum.split)
qed

lemma process_image_writes:
  assumes "csv_file w = Some c"
  shows "csv_file (snd (process_image lib env file w)) =
     Some (c @ concat (image_writes lib (file, env)))"
  using assms
  by (simp add: process_image_csv image_writes_def save_results_to_csv_def content_def
      case_prod_unfold
      split: option.split api_outcome.split sum.split csv_failure.split)

lemma process_batch_writes:
  "csv_file w = Some c \<Longrightarrow>
   csv_file (snd (process_batch lib files w)) =
     Some (c @ concat (concat (map (image_writes lib) files)))"
proof (induction files arbitrary: w c)
  case Nil
  then show ?case by simp
next
  case (Cons a files)
  obtain u e where a: "a = (u, e)" by (cases a)
  obtain r w1 where p: "process_image lib e u w = (r, w1)" by (cases "process_image lib e u w")
  have r: "r = None" using process_image_no_exception [of lib e u w] p by simp
  have w1: "csv_file w1 = Some (c @ concat (image_writes lib (u, e)))"
    using process_image_writes [OF Cons.prems, of lib e u] p by simp
  then have "csv_file (w1\<lparr>events := events w1 @ [Sleep 1]\<rparr>) =
      Some (c @ concat (image_writes lib (u, e)))"
    by simp
  then show ?case
    using a p r Cons.IH [of "w1\<lparr>events := events w1 @ [Sleep 1]\<rparr>"
        "c @ concat (image_writes lib (u, e))"]
    by simp
qed

lemma script_run_on_file:
  assumes "makedirs_fault renv = None" and "ensure_csv (header_fault renv) w = (None, w0)"
    and "csv_file w0 = Some c"
  shows "csv_file (snd (script_run lib renv uploaded_file uploaded_files w)) =
     Some (c @ concat (run_writes lib (renv, uploaded_file, uploaded_files)))"
proof -
  let ?w2 = "case uploaded_file of
               None \<Rightarrow> page_header w0
             | Some (file, env) \<Rightarrow> snd (process_image lib env file (page_header w0))"
  obtain w3 where b: "process_batch lib uploaded_files ?w2 = (None, w3)"
    and s: "script_run lib renv uploaded_file uploaded_files w =
              (case download_fault renv of
                 Some e \<Rightarrow> (Some e, w3)
               | None \<Rightarrow>
                   (None,
                    w3\<lparr>events := events w3 @
                       [DownloadButton ([0x1F4E5] @ lit '' Download CSV Results'')
                          (lit ''results.csv'')]\<rparr>))"
    using script_run_unfold [OF assms(1,2), of lib uploaded_files uploaded_file] by auto
  have h: "csv_file (page_header w0) = Some c"
    using assms(3) by (simp add: page_header_def)
  have e2: "csv_file ?w2 =
      Some (c @ concat (case uploaded_file of None \<Rightarrow> [] | Some fe \<Rightarrow> image_writes lib fe))"
    using h process_image_writes [OF h, of lib]
    by (cases uploaded_file) (auto split: prod.split)
  have "csv_file w3 =
      Some ((c @ concat (case uploaded_file of None \<Rightarrow> [] | Some fe \<Rightarrow> image_writes lib fe))
              @ concat (concat (map (image_writes lib) uploaded_files)))"
    using process_batch_writes [OF e2, of lib uploaded_files] b by simp
  then show ?thesis
    using s assms(1) by (simp add: run_writes_def split: option.split)
qed

lemma ensure_csv_existing: "csv_file w \<noteq> None \<Longrightarrow> ensure_csv fault w = (None, w)"
  by (auto simp: ensure_csv_def)

lemma ensure_csv_fresh:
  "csv_file w = None \<Longrightarrow> ensure_csv None w = (None, w\<lparr>csv_file := Some CSV_HEADER\<rparr>)"
  by (simp add: ensure_csv_def f_write_def)

lemma script_run_writes:
  assumes "csv_file w = Some c"
  shows "csv_file (snd (script_run lib renv uploaded_file uploaded_files w)) =
     Some (c @ concat (run_writes lib (renv, uploaded_file, uploaded_files)))"
proof (cases "makedirs_fault renv")
  case (Some e)
  with assms show ?thesis by (simp add: script_run_def run_writes_def)
next
  case None
  have "ensure_csv (header_fault renv) w = (None, w)"
    using assms by (simp add: ensure_csv_existing)
  then show ?thesis
    using script_run_on_file [OF None _ assms] by simp
qed

lemma script_runs_writes:
  "csv_file w = Some c \<Longrightarrow>
   csv_file (script_runs lib runs w) = Some (c @ concat (concat (map (run_writes lib) runs)))"
proof (induction runs arbitrary: w c)
  case Nil
  then show ?case by simp
next
  case (Cons a runs)
  obtain renv uf ufs where a: "a = (renv, uf, ufs)" by (cases a)
  have "csv_file (snd (script_run lib renv uf ufs w)) =
      Some (c @ concat (run_writes lib (renv, uf, ufs)))"
    using script_run_writes [OF Cons.prems] .
  then show ?case
    using a Cons.IH [of "snd (script_run lib renv uf ufs w)"
        "c @ concat (run_writes lib (renv, uf, ufs))"]
    by simp
qed

text \<open>
  C4. The header step writes the header exactly when the file does not exist, and leaves
  an existing file as it is. So over any sequence of runs that starts without the file
  (the first run getting past \<^verbatim>\<open>os.makedirs\<close> and the header step), the file afterwards
  is the header, once, followed by the rows the recorder wrote in these runs, in order;
  over any sequence of runs on an existing file, the file afterwards is what it held
  followed by the rows the recorder wrote; and no row the recorder writes is the header.
\<close>

theorem C4_header_written_once:
  "(csv_file w = None \<longrightarrow> ensure_csv None w = (None, w\<lparr>csv_file := Some CSV_HEADER\<rparr>))
   \<and> (csv_file w \<noteq> None \<longrightarrow> ensure_csv fault w = (None, w))
   \<and> (csv_file w = None \<and> makedirs_fault renv = None \<and> header_fault renv = None \<longrightarrow>
        csv_file (script_runs lib ((renv, uploaded_file, uploaded_files) # runs) w) =
          Some (CSV_HEADER @
                concat (concat (map (run_writes lib)
                                  ((renv, uploaded_file, uploaded_files) # runs)))))
   \<and> (csv_file w = Some c \<longrightarrow>
        csv_file (script_runs lib runs w) =
          Some (c @ concat (concat (map (run_writes lib) runs))))
   \<and> (\<forall>row \<in> set (concat (map (run_writes lib) runs)). row \<noteq> CSV_HEADER)"
proof -
  have f: "csv_file w = None \<and> makedirs_fault renv = None \<and> header_fault renv = None \<longrightarrow>
        csv_file (script_runs lib ((renv, uploaded_file, uploaded_files) # runs) w) =
          Some (CSV_HEADER @
                concat (concat (map (run_writes lib)
                                  ((renv, uploaded_file, uploaded_files) # runs))))"
  proof (intro impI, elim conjE)
    assume n: "csv_file w = None" and m: "makedirs_fault renv = None"
      and h: "header_fault renv = None"
    have e: "ensure_csv (header_fault renv) w = (None, w\<lparr>csv_file := Some CSV_HEADER\<rparr>)"
      using n h by (simp add: ensure_csv_fresh)
    have "csv_file (snd (script_run lib renv uploaded_file uploaded_files w)) =
        Some (CSV_HEADER @ concat (run_writes lib (renv, uploaded_file, uploaded_files)))"
      using script_run_on_file [OF m e] by simp
    then show "csv_file (script_runs lib ((renv, uploaded_file, uploaded_files) # runs) w) =
          Some (CSV_HEADER @
                concat (concat (map (run_writes lib)
                                  ((renv, uploaded_file, uploaded_files) # runs))))"
      using script_runs_writes [of "snd (script_run lib renv uploaded_file uploaded_files w)"
          "CSV_HEADER @ concat (run_writes lib (renv, uploaded_file, uploaded_files))" lib runs]
      by simp
  qed
  have r: "\<forall>row \<in> set (concat (map (run_writes lib) runs)). row \<noteq> CSV_HEADER"
    using run_writes_rows [of lib] header_no_adjacent_commas by auto
  show ?thesis
    using f r
    by (simp add: ensure_csv_fresh ensure_csv_existing script_runs_writes)
qed

theorem C4_header_written_once_witness:
  "csv_file fresh_world = None
   \<and> makedirs_fault quiet_run = None \<and> header_fault quiet_run = None
   \<and> ensure_csv None fresh_world = (None, fresh_world\<lparr>csv_file := Some CSV_HEADER\<rparr>)
   \<and> csv_file (script_runs example_libs
        [(quiet_run, Some (example_upload, example_env (Response 200 (Inr example_result))), []),
         (quiet_run, None,
            [(example_upload, example_env (Response 503 (Inl (JSONDecodeError []))))]),
         (quiet_run, None, [(broken_upload, example_env (Response 200 (Inr example_result)))])]
        fresh_world) =
       Some (CSV_HEADER @ lit ''tower1.jpg,TWR-001,,,, \<newline>''
               @ lit ''tower1.jpg,,1,panel,[10, 10, 50, 60],0.87\<newline>''
               @ lit ''broken.png,TWR-001,,,, \<newline>''
               @ lit ''broken.png,,1,panel,[10, 10, 50, 60],0.87\<newline>'')
   \<and> csv_file example_world = Some CSV_HEADER
   \<and> ensure_csv (Some (OpenRaises (OSError []))) example_world = (None, example_world)
   \<and> csv_file (script_runs example_libs
        [(quiet_run, Some (example_upload, example_env (Response 200 (Inr example_result))), [])]
        example_world) =
       Some (CSV_HEADER @ lit ''tower1.jpg,TWR-001,,,, \<newline>''
               @ lit ''tower1.jpg,,1,panel,[10, 10, 50, 60],0.87\<newline>'')
   \<and> lit ''tower1.jpg,TWR-001,,,, \<newline>'' \<noteq> CSV_HEADER
   \<and> lit ''tower1.jpg,,1,panel,[10, 10, 50, 60],0.87\<newline>'' \<noteq> CSV_HEADER"
  using C4_header_written_once [of fresh_world "Some (OpenRaises (OSError []))" quiet_run
        example_libs "Some (example_upload, example_env (Response 200 (Inr example_result)))" "[]"
        "[(quiet_run, None,
            [(example_upload, example_env (Response 503 (Inl (JSONDecodeError []))))]),
          (quiet_run, None, [(broken_upload, example_env (Response 200 (Inr example_result)))])]"
        CSV_HEADER]
    C4_header_written_once [of example_world "Some (OpenRaises (OSError []))" quiet_run
        example_libs None "[]"
        "[(quiet_run, Some (example_upload, example_env (Response 200 (Inr example_result))), [])]"
        CSV_HEADER]
  by (simp add: script_run_def ensure_csv_def page_header_def process_image_def
      process_image_body_def on_success_def save_results_to_csv_def draw_bounding_boxes_def
      run_writes_def image_writes_def recorder_writes_def f_write_def content_def c_int_def
      text_row_def detection_row_def all_text_def detections_of_def strip_def py_isspace_def
      str_int_list_def str_int_def str_nat.simps quiet_run_def CSV_HEADER_def
      fresh_world_def example_world_def example_libs_def example_upload_def broken_upload_def
      example_env_def example_result_def example_detection_def Let_def lit_def)


end
